theory Spec2Isabelle
  imports Complex_Main "HOL-Library.Sublist" "HOL-Library.Multiset"
begin

section \<open>Data model\<close>

text \<open>
  The draft simulator's state lives in one React component (\<open>App\<close>). Cards are the plain
  objects the card service returns; the fields the draft engine reads are kept, and a field
  that may be absent on an object is an \<open>option\<close>. JavaScript numbers are idealised as exact
  rationals; colour symbols are one-letter strings, modelled as characters, so an array of
  colour symbols is a \<open>string\<close>.
\<close>

record card =
  card_id :: string
  card_name :: string
  card_rarity :: "string option"
  card_cmc :: "rat option"
  card_colors :: "string option"
  card_type_line :: string
  card_power :: "string option"
  card_toughness :: "string option"

record player =
  player_id :: string
  colors :: string
  draftedCards :: "card list"
  sideboard :: "card list"
  packs :: "card list list"

subsection \<open>JavaScript helpers\<close>

text \<open>\<open>String.prototype.includes\<close>: the argument occurs as a contiguous substring.\<close>

fun str_includes :: "string \<Rightarrow> string \<Rightarrow> bool" where
  "str_includes [] sub = (sub = [])"
| "str_includes (c # cs) sub = (prefix sub (c # cs) \<or> str_includes cs sub)"

definition isBasicLand :: "card \<Rightarrow> bool" where
  "isBasicLand c = str_includes (card_type_line c) ''Basic Land''"

text \<open>
  \<open>xs[Math.floor(r * xs.length)]\<close> for a random number \<open>r\<close>: an index outside the array
  reads \<open>undefined\<close> (\<open>None\<close>). \<open>Math.random()\<close> returns a number in \<open>[0, 1)\<close>.
\<close>

definition pickAt :: "rat \<Rightarrow> 'a list \<Rightarrow> 'a option" where
  "pickAt r xs =
     (let i = \<lfloor>r * of_nat (length xs)\<rfloor>
      in if 0 \<le> i \<and> i < int (length xs) then Some (xs ! nat i) else None)"

text \<open>
  \<open>[...xs].sort(() => Math.random() - 0.5)\<close> sorts with a comparator that answers at random:
  the result is some permutation of \<open>xs\<close>, which one is decided by the random numbers drawn.
  The oracle \<open>ks\<close> names the permutation: \<open>k mod length xs\<close> is the position of the element
  that comes next.
\<close>

function shuffle_by :: "nat list \<Rightarrow> 'a list \<Rightarrow> 'a list" where
  "shuffle_by ks [] = []"
| "shuffle_by [] (x # xs) = x # xs"
| "shuffle_by (k # ks) (x # xs) =
     (let i = k mod length (x # xs)
      in (x # xs) ! i # shuffle_by ks (take i (x # xs) @ drop (Suc i) (x # xs)))"
  by pat_completeness auto
termination
  by (relation "measure (\<lambda>(ks, xs). length xs)") (auto simp: min_def)

text \<open>
  \<open>Array.prototype.sort\<close> with a comparison function is a stable sort: \<open>a\<close> stays before a
  later \<open>b\<close> unless \<open>cmp a b > 0\<close>.
\<close>

fun insertBy :: "('a \<Rightarrow> 'a \<Rightarrow> rat) \<Rightarrow> 'a \<Rightarrow> 'a list \<Rightarrow> 'a list" where
  "insertBy cmp x [] = [x]"
| "insertBy cmp x (y # ys) = (if cmp x y \<le> 0 then x # y # ys else y # insertBy cmp x ys)"

definition jsSort :: "('a \<Rightarrow> 'a \<Rightarrow> rat) \<Rightarrow> 'a list \<Rightarrow> 'a list" where
  "jsSort cmp xs = foldr (insertBy cmp) xs []"

text \<open>\<open>.filter(Boolean)\<close> on a slot that may be \<open>undefined\<close>.\<close>

fun definedSlot :: "'a option \<Rightarrow> 'a list" where
  "definedSlot None = []"
| "definedSlot (Some x) = [x]"

section \<open>Pack generator\<close>

text \<open>
  One attempt of \<open>generatePack\<close> draws: the mythic test (\<open>Math.random() < 0.125\<close>), the index
  of the rare slot, the two shuffles, and the index of the land slot.
\<close>

record draw =
  rareRoll :: rat
  rareIndex :: rat
  uncommonShuffle :: "nat list"
  commonShuffle :: "nat list"
  landIndex :: rat

definition hasRarity :: "string \<Rightarrow> card \<Rightarrow> bool" where
  "hasRarity r c = (card_rarity c = Some r)"

definition assemblePack :: "draw \<Rightarrow> card list \<Rightarrow> card list" where
  "assemblePack d cards =
     (let commons = filter (hasRarity ''common'') cards;
          uncommons = filter (hasRarity ''uncommon'') cards;
          rares = filter (hasRarity ''rare'') cards;
          mythics = filter (hasRarity ''mythic'') cards;
          lands = filter isBasicLand cards;
          rareOrMythic = (if mythics \<noteq> [] \<and> rareRoll d < 1 / 8 then mythics else rares);
          rareCard = (if rareOrMythic \<noteq> [] then pickAt (rareIndex d) rareOrMythic
                      else pickAt (rareIndex d) commons);
          uncommonCards = take 3 (shuffle_by (uncommonShuffle d) uncommons);
          commonCards = take 10 (shuffle_by (commonShuffle d) commons);
          landCard = (if lands \<noteq> [] then pickAt (landIndex d) lands
                      else pickAt (landIndex d) commons)
      in definedSlot rareCard @ uncommonCards @ commonCards @ definedSlot landCard)"

text \<open>
  The final sort orders by \<open>rarityOrder\<close>, a basic land counting as \<open>land\<close>. A rarity
  outside the table makes the difference \<open>NaN\<close>, which \<open>sort\<close> reads as 0.
\<close>

definition rarityOrder :: "card \<Rightarrow> rat option" where
  "rarityOrder c =
     (if isBasicLand c then Some 5
      else if card_rarity c = Some ''mythic'' then Some 1
      else if card_rarity c = Some ''rare'' then Some 2
      else if card_rarity c = Some ''uncommon'' then Some 3
      else if card_rarity c = Some ''common'' then Some 4
      else if card_rarity c = Some ''land'' then Some 5
      else None)"

definition rarityCompare :: "card \<Rightarrow> card \<Rightarrow> rat" where
  "rarityCompare a b =
     (case (rarityOrder a, rarityOrder b) of (Some x, Some y) \<Rightarrow> x - y | _ \<Rightarrow> 0)"

text \<open>
  \<open>generatePack\<close> retries until an attempt has exactly one basic land. Each attempt consumes
  one \<open>draw\<close>; \<open>None\<close> means that the draws supplied ran out before an attempt was accepted.
\<close>

fun generatePack :: "draw list \<Rightarrow> card list \<Rightarrow> card list option" where
  "generatePack [] cards = None"
| "generatePack (d # ds) cards =
     (let pack = assemblePack d cards;
          landCount = length (filter isBasicLand pack)
      in if landCount \<noteq> 1 then generatePack ds cards
         else Some (jsSort rarityCompare pack))"

section \<open>AI scoring model\<close>

text \<open>
  A row of the ratings table, as \<open>loadCardStats\<close> stores it. The three win rates are results
  of \<open>parseFloat\<close>; \<open>None\<close> stands for \<open>NaN\<close>.
\<close>

record cardStat =
  gihwr :: "rat option"
  ohwr :: "rat option"
  gdwr :: "rat option"
  stat_color :: string

text \<open>Truthiness of a number that may be \<open>undefined\<close> or \<open>NaN\<close>: false for those and for 0.\<close>

fun truthyNum :: "rat option \<Rightarrow> bool" where
  "truthyNum None = False"
| "truthyNum (Some x) = (x \<noteq> 0)"

text \<open>Every object is truthy, an empty array included.\<close>

definition truthyArray :: "'a list \<Rightarrow> bool" where
  "truthyArray xs = True"

text \<open>A field of \<open>cardStats[card.name] || {}\<close>: \<open>undefined\<close> when the name has no entry.\<close>

definition statField :: "(cardStat \<Rightarrow> rat option) \<Rightarrow> cardStat option \<Rightarrow> rat option" where
  "statField f stats = (case stats of None \<Rightarrow> None | Some st \<Rightarrow> f st)"

subsection \<open>\<open>parseInt\<close>\<close>

definition isWhiteSpace :: "char \<Rightarrow> bool" where
  "isWhiteSpace c = (let n = (of_char c :: nat) in n = 32 \<or> (9 \<le> n \<and> n \<le> 13))"

definition digitValue :: "nat \<Rightarrow> char \<Rightarrow> nat option" where
  "digitValue radix c =
     (let n = (of_char c :: nat);
          v = (if 48 \<le> n \<and> n \<le> 57 then Some (n - 48)
               else if 97 \<le> n \<and> n \<le> 102 then Some (n - 87)
               else if 65 \<le> n \<and> n \<le> 70 then Some (n - 55)
               else None)
      in case v of None \<Rightarrow> None | Some d \<Rightarrow> if d < radix then Some d else None)"

definition digitsValue :: "nat \<Rightarrow> string \<Rightarrow> nat option" where
  "digitsValue radix s =
     (let ds = takeWhile (\<lambda>c. digitValue radix c \<noteq> None) s
      in if ds = [] then None
         else Some (foldl (\<lambda>acc c. acc * radix + the (digitValue radix c)) 0 ds))"

definition parseUnsigned :: "string \<Rightarrow> nat option" where
  "parseUnsigned s =
     (if prefix ''0x'' s \<or> prefix ''0X'' s then digitsValue 16 (drop 2 s)
      else digitsValue 10 s)"

text \<open>
  \<open>parseInt(x)\<close> without a radix: leading white space, a sign, an optional \<open>0x\<close>, then the
  longest run of digits; \<open>NaN\<close> (\<open>None\<close>) when there is no digit. An absent field is the
  string \<open>undefined\<close>, which has none.
\<close>

definition parseInt :: "string option \<Rightarrow> int option" where
  "parseInt x =
     (case x of None \<Rightarrow> None
      | Some s0 \<Rightarrow>
          (let s = dropWhile isWhiteSpace s0
           in case s of
                [] \<Rightarrow> None
              | c # cs \<Rightarrow>
                  if c = CHR ''-'' then map_option (\<lambda>n. - int n) (parseUnsigned cs)
                  else if c = CHR ''+'' then map_option int (parseUnsigned cs)
                  else map_option int (parseUnsigned s)))"

text \<open>\<open>parseInt(x) || 0\<close>\<close>

definition parseIntOr0 :: "string option \<Rightarrow> rat" where
  "parseIntOr0 x = (case parseInt x of None \<Rightarrow> 0 | Some n \<Rightarrow> of_int n)"

subsection \<open>\<open>getColorPairBonus\<close>\<close>

definition colorLetterToName :: "char \<Rightarrow> string" where
  "colorLetterToName c =
     (if c = CHR ''W'' then ''White''
      else if c = CHR ''U'' then ''Blue''
      else if c = CHR ''B'' then ''Black''
      else if c = CHR ''R'' then ''Red''
      else if c = CHR ''G'' then ''Green''
      else [c])"

text \<open>\<open>[...colors].sort().join('')\<close>: the symbols in code-unit order.\<close>

definition sortedKey :: "string \<Rightarrow> string" where
  "sortedKey cs = sort_key (of_char :: char \<Rightarrow> nat) cs"

definition twoColorMap :: "string \<Rightarrow> string option" where
  "twoColorMap = map_of
     [(''UW'', ''Azorius (WU)''), (''UB'', ''Dimir (UB)''), (''BR'', ''Rakdos (BR)''),
      (''RG'', ''Gruul (RG)''), (''GW'', ''Selesnya (GW)''), (''WB'', ''Orzhov (WB)''),
      (''BG'', ''Golgari (BG)''), (''GU'', ''Simic (GU)''), (''UR'', ''Izzet (UR)''),
      (''RW'', ''Boros (RW)'')]"

definition fixedThreeColorMap :: "string \<Rightarrow> string option" where
  "fixedThreeColorMap = map_of
     [(''RUW'', ''Jeskai (WUR)''), (''BGU'', ''Sultai (UBG)''), (''BRW'', ''Mardu (BRW)''),
      (''GRU'', ''Temur (RGU)''), (''BGW'', ''Abzan (GWB)''), (''GWU'', ''Bant (GWU)''),
      (''BUW'', ''Esper (WUB)''), (''BUR'', ''Grixis (UBR)''), (''BGR'', ''Jund (BRG)''),
      (''GRW'', ''Naya (RGW)'')]"

text \<open>A template string prints a missing table entry as \<open>undefined\<close>.\<close>

definition templ :: "string option \<Rightarrow> string" where
  "templ x = (case x of None \<Rightarrow> ''undefined'' | Some s \<Rightarrow> s)"

text \<open>
  The candidate keys, most specific first. A missing table entry is pushed as \<open>undefined\<close>
  (\<open>None\<close>) and skipped by the lookup loop.
\<close>

definition keyCandidates :: "string \<Rightarrow> string option list" where
  "keyCandidates aiColors =
     (let aiKey = sortedKey aiColors
      in (if length aiColors = 1
          then [Some (''Mono-'' @ colorLetterToName (aiColors ! 0)), Some ''Mono-color'']
          else [])
       @ (if length aiColors = 2
          then [twoColorMap aiKey, Some (templ (twoColorMap aiKey) @ '' + Splash''),
                Some ''Two-color'', Some ''Two-color + Splash'']
          else [])
       @ (if length aiColors = 3
          then [fixedThreeColorMap aiKey, Some (templ (fixedThreeColorMap aiKey) @ '' + Splash''),
                Some ''Three-color'', Some ''Three-color + Splash'']
          else [])
       @ (if length aiColors = 4 then [Some ''Four-color'', Some ''Four-color + Splash''] else [])
       @ (if length aiColors = 5 then [Some ''Five-color'', Some ''All Colors (WUBRG)''] else [])
       @ [Some ''All Decks''])"

fun findWinRate :: "(string \<rightharpoonup> rat) \<Rightarrow> string option list \<Rightarrow> rat option" where
  "findWinRate colorPairStats [] = None"
| "findWinRate colorPairStats (None # keys) = findWinRate colorPairStats keys"
| "findWinRate colorPairStats (Some key # keys) =
     (if key \<noteq> [] \<and> colorPairStats key \<noteq> None then colorPairStats key
      else findWinRate colorPairStats keys)"

definition getColorPairBonus :: "string \<Rightarrow> string \<Rightarrow> (string \<rightharpoonup> rat) \<Rightarrow> rat" where
  "getColorPairBonus cardColors aiColors colorPairStats =
     (if cardColors = [] \<or> aiColors = [] then 0
      else if \<not> list_all (\<lambda>c. c \<in> set aiColors) cardColors then 0
      else case findWinRate colorPairStats (keyCandidates aiColors) of
             None \<Rightarrow> 0
           | Some winRate \<Rightarrow> (winRate - 50) * (1 / 2))"

subsection \<open>\<open>calculateCardScore\<close>\<close>

text \<open>\<open>card.colors || []\<close>\<close>

definition cardColors :: "card \<Rightarrow> string" where
  "cardColors c = (case card_colors c of None \<Rightarrow> [] | Some cs \<Rightarrow> cs)"

text \<open>The \<open>else\<close> branch of the statistics test: rarity, mana value and type.\<close>

definition rarityScore :: "card \<Rightarrow> rat" where
  "rarityScore c =
     (if card_rarity c = Some ''mythic'' then 10
      else if card_rarity c = Some ''rare'' then 8
      else if card_rarity c = Some ''uncommon'' then 5
      else if card_rarity c = Some ''common'' then 3
      else 1)"

definition cmcScore :: "card \<Rightarrow> rat" where
  "cmcScore c = (let cmc = (case card_cmc c of None \<Rightarrow> 0 | Some v \<Rightarrow> v) in max (10 - cmc) 0)"

definition typeScore :: "card \<Rightarrow> rat" where
  "typeScore c =
     (if str_includes (card_type_line c) ''Creature''
      then (parseIntOr0 (card_power c) + parseIntOr0 (card_toughness c)) / 2 + 2
      else if str_includes (card_type_line c) ''Instant'' \<or> str_includes (card_type_line c) ''Sorcery''
      then 4
      else if str_includes (card_type_line c) ''Artifact''
              \<or> str_includes (card_type_line c) ''Enchantment''
      then 3
      else 0)"

definition fallbackScore :: "card \<Rightarrow> rat" where
  "fallbackScore c = rarityScore c + cmcScore c + typeScore c"

definition statsScore :: "cardStat option \<Rightarrow> card \<Rightarrow> rat" where
  "statsScore stats c =
     (if truthyNum (statField gihwr stats)
      then the (statField gihwr stats) * (3 / 2)
           + (if truthyNum (statField ohwr stats) then the (statField ohwr stats) * (4 / 5) else 0)
           + (if truthyNum (statField gdwr stats) then the (statField gdwr stats) * (7 / 10) else 0)
      else fallbackScore c)"

text \<open>
  The colour symbols the card is scored on:
  \<^verbatim>\<open>const statsColor = stats.color || ''; const cardColorInfo = statsColor.split('') || cardColors;\<close>
\<close>

definition cardColorInfo :: "cardStat option \<Rightarrow> card \<Rightarrow> string" where
  "cardColorInfo stats c =
     (let statsColor = (case stats of None \<Rightarrow> [] | Some st \<Rightarrow> stat_color st);
          split = statsColor
      in if truthyArray split then split else cardColors c)"

definition colorScore :: "string \<Rightarrow> string \<Rightarrow> rat" where
  "colorScore info aiColors =
     (if length info = 0 then 3
      else of_nat (5 * length (filter (\<lambda>color. color \<in> set aiColors) info))
           + (if list_all (\<lambda>color. color \<in> set aiColors) info then 3 else 0))"

definition calculateCardScore ::
  "(string \<rightharpoonup> cardStat) \<Rightarrow> (string \<rightharpoonup> rat) \<Rightarrow> card \<Rightarrow> player \<Rightarrow> rat" where
  "calculateCardScore cardStats colorPairStats c aiPlayer =
     (let stats = cardStats (card_name c);
          info = cardColorInfo stats c;
          colorPairBonus = getColorPairBonus info (colors aiPlayer) colorPairStats
      in if truthyNum (statField gihwr stats)
         then statsScore stats c + colorScore info (colors aiPlayer) * (3 / 2) + colorPairBonus
         else statsScore stats c + colorScore info (colors aiPlayer) + colorPairBonus)"

text \<open>\<open>aiPickCard\<close>: the first card of the pack sorted by descending score.\<close>

definition aiPickCard ::
  "(string \<rightharpoonup> cardStat) \<Rightarrow> (string \<rightharpoonup> rat) \<Rightarrow> card list \<Rightarrow> player \<Rightarrow> card option" where
  "aiPickCard cardStats colorPairStats pack aiPlayer =
     (if length pack = 0 then None
      else (let sortedPack = jsSort (\<lambda>a b. calculateCardScore cardStats colorPairStats b aiPlayer
                                          - calculateCardScore cardStats colorPairStats a aiPlayer) pack
            in Some (sortedPack ! 0)))"

subsection \<open>\<open>updatePlayerColors\<close>\<close>

text \<open>
  \<open>colorCounts\<close> has the five keys W, U, B, R, G, in this order; other symbols are not
  counted.
\<close>

definition colorCounts :: "card list \<Rightarrow> (char \<times> nat) list" where
  "colorCounts cs =
     map (\<lambda>col. (col, length (filter (\<lambda>x. x = col) (concat (map cardColors cs))))) ''WUBRG''"

definition updatePlayerColors :: "player \<Rightarrow> player" where
  "updatePlayerColors p =
     (let sortedColors =
            take 2 (map fst (jsSort (\<lambda>a b. of_nat (snd b) - of_nat (snd a))
                                    (colorCounts (draftedCards p))))
      in p\<lparr>colors := (if length sortedColors > 0 then sortedColors else colors p)\<rparr>)"

section \<open>Seat table and pass protocol\<close>

text \<open>
  \<open>initializeAIOpponents\<close>: each opponent starts with one colour, \<open>colors[Math.floor(Math.random() * 5)]\<close>.
  The oracle gives the random number of opponent \<open>i\<close>.
\<close>

function string_of_nat :: "nat \<Rightarrow> string" where
  "string_of_nat n =
     (if n < 10 then [''0123456789'' ! n]
      else string_of_nat (n div 10) @ [''0123456789'' ! (n mod 10)])"
  by pat_completeness auto
termination
  by (relation "measure id") auto

declare string_of_nat.simps [simp del]

definition initializeAIOpponents :: "(nat \<Rightarrow> rat) \<Rightarrow> nat \<Rightarrow> player list" where
  "initializeAIOpponents rolls numOpponents =
     map (\<lambda>i. \<lparr>player_id = ''AI_'' @ string_of_nat (i + 1),
               colors = definedSlot (pickAt (rolls i) ''WUBRG''),
               draftedCards = [], sideboard = [], packs = []\<rparr>)
         [0..<numOpponents]"

text \<open>
  \<open>initializeDraft\<close>: the human seat and seven opponents, each with three generated packs.
  \<open>packDraws i k\<close> are the draws of pack \<open>k\<close> of seat \<open>i\<close>.
\<close>

record init_oracle =
  aiColorRolls :: "nat \<Rightarrow> rat"
  packDraws :: "nat \<Rightarrow> nat \<Rightarrow> draw list"

definition dealPacks :: "init_oracle \<Rightarrow> card list \<Rightarrow> nat \<times> player \<Rightarrow> player option" where
  "dealPacks orc cards ip =
     (case (generatePack (packDraws orc (fst ip) 0) cards,
            generatePack (packDraws orc (fst ip) 1) cards,
            generatePack (packDraws orc (fst ip) 2) cards) of
        (Some a, Some b, Some c) \<Rightarrow> Some ((snd ip)\<lparr>packs := [a, b, c]\<rparr>)
      | _ \<Rightarrow> None)"

definition initializeDraft :: "init_oracle \<Rightarrow> card list \<Rightarrow> player list option" where
  "initializeDraft orc cards =
     (let aiOpponents = initializeAIOpponents (aiColorRolls orc) 7;
          humanPlayer = \<lparr>player_id = ''human'', colors = [], draftedCards = [],
                         sideboard = [], packs = []\<rparr>;
          allPlayers = humanPlayer # aiOpponents
      in those (map (dealPacks orc cards) (enumerate 0 allPlayers)))"

text \<open>
  The repair after a pass: a pack with more than one basic land loses every card that is one of
  its basic lands after the first. \<open>extraLands.includes(card)\<close> compares objects by identity;
  the model has cards as values and compares by value. The two agree on every pack with at
  most one basic land (nothing is removed) and on every pack whose first basic land differs in
  value from its later ones. Where the first basic land has the value of a later one, the code
  removes it only if the two are one object, which the model cannot tell: no statement below
  is about the repair of such a pack, and \<open>reachable_packs_one_land\<close> shows that no pack of a
  reachable state has more than one basic land.
\<close>

definition correctLands :: "card list \<Rightarrow> card list" where
  "correctLands pack =
     (let landCount = length (filter isBasicLand pack)
      in if landCount > 1
         then (let extraLands = drop 1 (filter isBasicLand pack)
               in filter (\<lambda>c. c \<notin> set extraLands) pack)
         else pack)"

text \<open>
  The seat whose pack seat \<open>index\<close> receives: \<open>(index + 1) % n\<close> in an odd round (direction
  \<open>left\<close>), \<open>(index - 1 + n) % n\<close> in an even round (the sum is taken before the subtraction,
  to stay within the naturals).
\<close>

definition nextIndex :: "nat \<Rightarrow> nat \<Rightarrow> nat \<Rightarrow> nat" where
  "nextIndex rnd n index =
     (if rnd mod 2 = 1 then (index + 1) mod n else (index + n - 1) mod n)"

text \<open>
  \<open>passPacks\<close>. It is called with \<open>round\<close> between 1 and the number of packs of every seat
  (\<open>handlePick\<close> below throws before the call otherwise).
\<close>

definition passPacks :: "player list \<Rightarrow> nat \<Rightarrow> player list" where
  "passPacks ps rnd =
     (let currentPacks = map (\<lambda>p. packs p ! (rnd - 1)) ps
      in map (\<lambda>(index, p).
                p\<lparr>packs := (packs p)[rnd - 1 :=
                     correctLands (currentPacks ! nextIndex rnd (length ps) index)]\<rparr>)
             (enumerate 0 ps))"

section \<open>Draft state machine\<close>

record app =
  players :: "player list"
  currentRound :: nat
  currentPackIndex :: nat
  draftComplete :: bool
  loadingCards :: bool
  draftHistory :: "(player list \<times> nat) list"
  suggestedCardId :: "string option"
  builtDeck :: "card list"
  cardStats :: "string \<rightharpoonup> cardStat"
  colorPairStats :: "string \<rightharpoonup> rat"

datatype error = TypeError

definition initialApp :: app where
  "initialApp = \<lparr>players = [], currentRound = 1, currentPackIndex = 0, draftComplete = False,
                  loadingCards = False, draftHistory = [], suggestedCardId = None,
                  builtDeck = [], cardStats = Map.empty, colorPairStats = Map.empty\<rparr>"

text \<open>The human's part of \<open>handlePick\<close>.\<close>

definition humanPick :: "nat \<Rightarrow> card \<Rightarrow> player \<Rightarrow> player" where
  "humanPick rnd c humanPlayer =
     (let currentPack = packs humanPlayer ! (rnd - 1)
      in updatePlayerColors
           (humanPlayer\<lparr>draftedCards := draftedCards humanPlayer @ [c],
                        packs := (packs humanPlayer)[rnd - 1 :=
                                   filter (\<lambda>x. card_id x \<noteq> card_id c) currentPack]\<rparr>))"

text \<open>The body of the loop over the opponents.\<close>

definition aiPick ::
  "(string \<rightharpoonup> cardStat) \<Rightarrow> (string \<rightharpoonup> rat) \<Rightarrow> nat \<Rightarrow> player \<Rightarrow> player" where
  "aiPick stats pairStats rnd aiPlayer =
     (let aiPack = packs aiPlayer ! (rnd - 1)
      in if length aiPack > 0
         then (case aiPickCard stats pairStats aiPack aiPlayer of
                 None \<Rightarrow> aiPlayer
               | Some aiCard \<Rightarrow>
                   updatePlayerColors
                     (aiPlayer\<lparr>draftedCards := draftedCards aiPlayer @ [aiCard],
                               packs := (packs aiPlayer)[rnd - 1 :=
                                          filter (\<lambda>x. card_id x \<noteq> card_id aiCard) aiPack]\<rparr>))
         else aiPlayer)"

definition allPacksEmpty :: "player list \<Rightarrow> nat \<Rightarrow> bool" where
  "allPacksEmpty ps rnd = list_all (\<lambda>p. length (packs p ! (rnd - 1)) = 0) ps"

text \<open>\<open>[...prev, currentState].slice(-5)\<close>\<close>

definition pushHistory :: "'a list \<Rightarrow> 'a \<Rightarrow> 'a list" where
  "pushHistory prev currentState =
     drop (length (prev @ [currentState]) - 5) (prev @ [currentState])"

text \<open>The seats after the human's pick, the opponents' picks and the pass.\<close>

definition updatedPlayers :: "card \<Rightarrow> app \<Rightarrow> player list" where
  "updatedPlayers c s =
     passPacks (humanPick (currentRound s) c (hd (players s))
                # map (aiPick (cardStats s) (colorPairStats s) (currentRound s)) (tl (players s)))
               (currentRound s)"

text \<open>
  \<open>handlePick\<close>. Reading \<open>players[0].packs\<close> with no seat, or the current round's pack of a
  seat that has none, throws a \<open>TypeError\<close>. The state setters run in the order of the source:
  the history set when the round or the draft ends overrides the push.
\<close>

definition handlePick :: "card \<Rightarrow> app \<Rightarrow> error + app" where
  "handlePick c s =
     (if players s = [] \<or> currentRound s = 0
         \<or> (\<exists>p \<in> set (players s). length (packs p) < currentRound s)
      then Inl TypeError
      else
        (let currentState = (players s, currentPackIndex s);
             s1 = s\<lparr>draftHistory := pushHistory (draftHistory s) currentState\<rparr>;
             ps = updatedPlayers c s;
             s2 = (if allPacksEmpty ps (currentRound s)
                   then (if currentRound s < 3
                         then s1\<lparr>currentRound := currentRound s + 1, currentPackIndex := 0,
                                 draftHistory := []\<rparr>
                         else s1\<lparr>draftComplete := True, draftHistory := []\<rparr>)
                   else s1\<lparr>currentPackIndex := currentPackIndex s + 1\<rparr>)
         in Inr (s2\<lparr>suggestedCardId := None, players := ps\<rparr>)))"

text \<open>\<open>handleUndo\<close>, and the click handler of the Undo Pick button, which does the same.\<close>

definition handleUndo :: "app \<Rightarrow> app" where
  "handleUndo s =
     (if length (draftHistory s) = 0 then s
      else (let lastState = last (draftHistory s)
            in s\<lparr>players := fst lastState, currentPackIndex := snd lastState,
                 draftHistory := butlast (draftHistory s)\<rparr>))"

definition undoPickClick :: "app \<Rightarrow> app" where
  "undoPickClick s =
     (if length (draftHistory s) > 0
      then (let lastState = draftHistory s ! (length (draftHistory s) - 1)
            in s\<lparr>players := fst lastState, currentPackIndex := snd lastState,
                 draftHistory := take (length (draftHistory s) - 1) (draftHistory s)\<rparr>)
      else s)"

text \<open>The two effects that run when the selected set changes, and the end of the fetch.\<close>

definition selectSet :: "app \<Rightarrow> app" where
  "selectSet s =
     s\<lparr>loadingCards := True, players := [], draftHistory := [], currentRound := 1,
       currentPackIndex := 0, draftComplete := False\<rparr>"

definition cardsFetched :: "init_oracle \<Rightarrow> card list \<Rightarrow> app \<Rightarrow> app option" where
  "cardsFetched orc allCards s =
     (if length allCards = 0 then Some (s\<lparr>loadingCards := False\<rparr>)
      else case initializeDraft orc allCards of
             None \<Rightarrow> None
           | Some ps \<Rightarrow> Some (s\<lparr>players := ps, loadingCards := False\<rparr>))"

text \<open>Sideboard and sorting of the drafted cards.\<close>

definition firstColor :: "card \<Rightarrow> string" where
  "firstColor c = (case card_colors c of Some (x # xs) \<Rightarrow> [x] | _ \<Rightarrow> [])"

text \<open>
  \<open>localeCompare\<close> on colour symbols and the empty string; on these the collation order is
  the order of the character codes.
\<close>

fun localeCompare :: "string \<Rightarrow> string \<Rightarrow> rat" where
  "localeCompare [] [] = 0"
| "localeCompare [] (y # ys) = - 1"
| "localeCompare (x # xs) [] = 1"
| "localeCompare (x # xs) (y # ys) =
     (if (of_char x :: nat) < of_char y then - 1
      else if (of_char y :: nat) < of_char x then 1
      else localeCompare xs ys)"

definition sortCompare :: "string \<Rightarrow> card \<Rightarrow> card \<Rightarrow> rat" where
  "sortCompare criteria a b =
     (if criteria = ''cmc''
      then (case card_cmc a of None \<Rightarrow> 0 | Some v \<Rightarrow> v) - (case card_cmc b of None \<Rightarrow> 0 | Some v \<Rightarrow> v)
      else if criteria = ''color'' then localeCompare (firstColor a) (firstColor b)
      else 0)"

definition mapHuman :: "(player \<Rightarrow> player) \<Rightarrow> player list \<Rightarrow> player list" where
  "mapHuman f ps = map (\<lambda>(i, p). if i = 0 then f p else p) (enumerate 0 ps)"

definition sortDraftDeck :: "string \<Rightarrow> app \<Rightarrow> app" where
  "sortDraftDeck criteria s =
     s\<lparr>players := mapHuman (\<lambda>p. p\<lparr>draftedCards := jsSort (sortCompare criteria) (draftedCards p)\<rparr>)
                           (players s)\<rparr>"

definition moveToSideboard :: "card \<Rightarrow> app \<Rightarrow> app" where
  "moveToSideboard c s =
     s\<lparr>players := mapHuman (\<lambda>p. p\<lparr>draftedCards := filter (\<lambda>x. card_id x \<noteq> card_id c) (draftedCards p),
                                   sideboard := sideboard p @ [c]\<rparr>)
                           (players s)\<rparr>"

definition moveFromSideboard :: "card \<Rightarrow> app \<Rightarrow> app" where
  "moveFromSideboard c s =
     s\<lparr>players := mapHuman (\<lambda>p. p\<lparr>sideboard := filter (\<lambda>x. card_id x \<noteq> card_id c) (sideboard p),
                                   draftedCards := draftedCards p @ [c]\<rparr>)
                           (players s)\<rparr>"

text \<open>The Suggest Pick button: it shows the card the scoring model would pick, or hides it again.\<close>

definition suggestPickClick :: "app \<Rightarrow> app" where
  "suggestPickClick s =
     (let humanPlayer = hd (players s);
          currentPack = packs humanPlayer ! (currentRound s - 1)
      in if length currentPack > 0
         then (case aiPickCard (cardStats s) (colorPairStats s) currentPack humanPlayer of
                 None \<Rightarrow> s
               | Some suggested \<Rightarrow>
                   if suggestedCardId s = Some (card_id suggested)
                   then s\<lparr>suggestedCardId := None\<rparr>
                   else s\<lparr>suggestedCardId := Some (card_id suggested)\<rparr>)
         else s)"

section \<open>Deck builder\<close>

definition addToDeck :: "card \<Rightarrow> app \<Rightarrow> app" where
  "addToDeck c s =
     (if \<not> list_ex (\<lambda>x. card_id x = card_id c) (builtDeck s)
      then s\<lparr>builtDeck := builtDeck s @ [c]\<rparr>
      else s)"

definition removeFromDeck :: "card \<Rightarrow> app \<Rightarrow> app" where
  "removeFromDeck c s = s\<lparr>builtDeck := filter (\<lambda>x. card_id x \<noteq> card_id c) (builtDeck s)\<rparr>"

definition sortDeck :: "string \<Rightarrow> app \<Rightarrow> app" where
  "sortDeck criteria s = s\<lparr>builtDeck := jsSort (sortCompare criteria) (builtDeck s)\<rparr>"

definition landName :: "char \<Rightarrow> string" where
  "landName color =
     (if color = CHR ''W'' then ''Plains''
      else if color = CHR ''U'' then ''Island''
      else if color = CHR ''B'' then ''Swamp''
      else if color = CHR ''R'' then ''Mountain''
      else ''Forest'')"

text \<open>The card \<open>suggestLands\<close> makes up for land number \<open>i\<close> of a colour.\<close>

definition basicLand :: "char \<Rightarrow> nat \<Rightarrow> card" where
  "basicLand color i =
     \<lparr>card_id = ''basic-'' @ [color] @ ''-'' @ string_of_nat i,
      card_name = landName color,
      card_rarity = None, card_cmc = None,
      card_colors = Some [color],
      card_type_line = ''Basic Land'',
      card_power = None, card_toughness = None\<rparr>"

text \<open>\<open>Math.round\<close>: the nearest integer, a half rounding up.\<close>

definition mathRound :: "rat \<Rightarrow> int" where
  "mathRound x = \<lfloor>x + 1 / 2\<rfloor>"

text \<open>
  The lands \<open>suggestLands\<close> appends. A colour symbol outside W, U, B, R, G makes its counter,
  and with it the sum, \<open>NaN\<close>; \<open>|| 1\<close> then sets the total to 1, as it does for a sum of 0.
\<close>

definition suggestedLands :: "card list \<Rightarrow> card list" where
  "suggestedLands deck =
     (let symbols = concat (map cardColors deck);
          colorCount = (\<lambda>color. length (filter (\<lambda>x. x = color) symbols));
          total = sum_list (map colorCount ''WUBRG'');
          totalColors = (if (\<exists>x \<in> set symbols. x \<notin> set ''WUBRG'') \<or> total = 0 then 1 else total);
          totalLandsNeeded = 17
      in concat (map (\<lambda>color.
                        map (basicLand color)
                            [0..<nat (mathRound (of_nat (colorCount color) / of_nat totalColors
                                                  * totalLandsNeeded))])
                     ''WUBRG''))"

definition suggestLands :: "app \<Rightarrow> app" where
  "suggestLands s = s\<lparr>builtDeck := builtDeck s @ suggestedLands (builtDeck s)\<rparr>"

section \<open>The commands of the presentation layer\<close>

text \<open>
  What the page renders decides which handlers can run. The pack, with the Suggest Pick and
  Undo Pick buttons, is shown while no set is loading, the draft is not complete and the
  human seat's pack of the current round is not empty; the deck builder is shown once the
  draft is complete.
\<close>

definition humanPack :: "app \<Rightarrow> card list" where
  "humanPack s =
     (case players s of
        [] \<Rightarrow> []
      | p # ps \<Rightarrow> if 1 \<le> currentRound s \<and> currentRound s \<le> length (packs p)
                  then packs p ! (currentRound s - 1) else [])"

definition draftShown :: "app \<Rightarrow> bool" where
  "draftShown s = (\<not> loadingCards s \<and> \<not> draftComplete s)"

definition packShown :: "app \<Rightarrow> bool" where
  "packShown s = (draftShown s \<and> length (humanPack s) > 0)"

definition deckBuilderShown :: "app \<Rightarrow> bool" where
  "deckBuilderShown s = (\<not> loadingCards s \<and> draftComplete s)"

definition humanPool :: "app \<Rightarrow> card list" where
  "humanPool s = (case players s of [] \<Rightarrow> [] | p # ps \<Rightarrow> draftedCards p @ sideboard p)"

definition humanDrafted :: "app \<Rightarrow> card list" where
  "humanDrafted s = (case players s of [] \<Rightarrow> [] | p # ps \<Rightarrow> draftedCards p)"

definition humanSideboard :: "app \<Rightarrow> card list" where
  "humanSideboard s = (case players s of [] \<Rightarrow> [] | p # ps \<Rightarrow> sideboard p)"

text \<open>
  The cards the page shows as the current pack, each a \<open>Card\<close> whose click runs
  \<open>handlePick\<close> (the \<open>cards\<close> of \<open>Pack\<close>; none where \<open>Pack\<close> is not rendered):
  \<^verbatim>\<open>loadingCards ? ... : !draftComplete ? (players[0]?.packs?.[currentRound - 1]?.length > 0 ? <Pack cards={...} onPick={handlePick} disabled={false}/> : <p>No pack available...</p>) : ...\<close>
\<close>

definition packCards :: "app \<Rightarrow> card list" where
  "packCards s =
     (if loadingCards s then []
      else if \<not> draftComplete s
      then (if length (humanPack s) > 0 then humanPack s else [])
      else [])"



datatype command =
    Pick card
  | UndoPick
  | SuggestPick
  | SortDrafted string
  | ToSideboard card
  | FromSideboard card
  | ChangeSet
  | Fetched init_oracle "card list"
  | StatsLoaded "string \<rightharpoonup> cardStat"
  | PairStatsLoaded "string \<rightharpoonup> rat"
  | AddToDeck card
  | RemoveFromDeck card
  | SuggestLands
  | SortBuilt string

inductive step :: "app \<Rightarrow> command \<Rightarrow> app \<Rightarrow> bool" where
  pick: "packShown s \<Longrightarrow> c \<in> set (humanPack s) \<Longrightarrow> handlePick c s = Inr s'
         \<Longrightarrow> step s (Pick c) s'"
| undo: "packShown s \<Longrightarrow> draftHistory s \<noteq> [] \<Longrightarrow> step s UndoPick (undoPickClick s)"
| suggestPick: "packShown s \<Longrightarrow> step s SuggestPick (suggestPickClick s)"
| sortDrafted: "draftShown s \<Longrightarrow> criteria \<in> {''cmc'', ''color''}
         \<Longrightarrow> step s (SortDrafted criteria) (sortDraftDeck criteria s)"
| toSideboard: "draftShown s \<Longrightarrow> c \<in> set (humanDrafted s)
         \<Longrightarrow> step s (ToSideboard c) (moveToSideboard c s)"
| fromSideboard: "draftShown s \<Longrightarrow> c \<in> set (humanSideboard s)
         \<Longrightarrow> step s (FromSideboard c) (moveFromSideboard c s)"
| changeSet: "step s ChangeSet (selectSet s)"
| fetched: "cardsFetched orc allCards s = Some s' \<Longrightarrow> step s (Fetched orc allCards) s'"
| statsLoaded: "step s (StatsLoaded m) (s\<lparr>cardStats := m\<rparr>)"
| pairStatsLoaded: "step s (PairStatsLoaded pm) (s\<lparr>colorPairStats := pm\<rparr>)"
| addCard: "deckBuilderShown s \<Longrightarrow> c \<in> set (humanPool s)
         \<Longrightarrow> \<not> list_ex (\<lambda>x. card_id x = card_id c) (builtDeck s)
         \<Longrightarrow> step s (AddToDeck c) (addToDeck c s)"
| removeCard: "deckBuilderShown s \<Longrightarrow> c \<in> set (builtDeck s)
         \<Longrightarrow> step s (RemoveFromDeck c) (removeFromDeck c s)"
| lands: "deckBuilderShown s \<Longrightarrow> step s SuggestLands (suggestLands s)"
| sortBuilt: "deckBuilderShown s \<Longrightarrow> criteria \<in> {''cmc'', ''color''}
         \<Longrightarrow> step s (SortBuilt criteria) (sortDeck criteria s)"

text \<open>The states the page can be in: the initial state of the component and what commands make of it.\<close>

inductive reachable :: "app \<Rightarrow> bool" where
  reach_init: "reachable initialApp"
| reach_step: "reachable s \<Longrightarrow> step s cmd s' \<Longrightarrow> reachable s'"

section \<open>Predicates of the statements\<close>

text \<open>A card that counts for the rare, uncommon or common slot of a pack: not a basic land.\<close>

definition nonLandRare :: "card \<Rightarrow> bool" where
  "nonLandRare c = (\<not> isBasicLand c \<and> (hasRarity ''rare'' c \<or> hasRarity ''mythic'' c))"

definition nonLandUncommon :: "card \<Rightarrow> bool" where
  "nonLandUncommon c = (\<not> isBasicLand c \<and> hasRarity ''uncommon'' c)"

definition nonLandCommon :: "card \<Rightarrow> bool" where
  "nonLandCommon c = (\<not> isBasicLand c \<and> hasRarity ''common'' c)"

text \<open>
  What \<open>initializeDraft\<close> sets up and every command keeps: three packs at every seat, also in
  the snapshots of the history, and a round between 1 and 3.
\<close>

definition threePacks :: "player list \<Rightarrow> bool" where
  "threePacks ps = (\<forall>p \<in> set ps. length (packs p) = 3)"

definition wellFormed :: "app \<Rightarrow> bool" where
  "wellFormed s =
     (1 \<le> currentRound s \<and> currentRound s \<le> 3 \<and> threePacks (players s)
      \<and> (\<forall>h \<in> set (draftHistory s). threePacks (fst h)))"

text \<open>No pack of any seat has more than one basic land.\<close>

definition oneLand :: "player list \<Rightarrow> bool" where
  "oneLand ps = (\<forall>p \<in> set ps. \<forall>pk \<in> set (packs p). length (filter isBasicLand pk) \<le> 1)"

definition oneLandState :: "app \<Rightarrow> bool" where
  "oneLandState s = (oneLand (players s) \<and> (\<forall>h \<in> set (draftHistory s). oneLand (fst h)))"

section \<open>Concrete inputs\<close>

definition mkCard :: "string \<Rightarrow> string \<Rightarrow> string \<Rightarrow> rat \<Rightarrow> string \<Rightarrow> string \<Rightarrow> card" where
  "mkCard i n r m cs t =
     \<lparr>card_id = i, card_name = n, card_rarity = Some r, card_cmc = Some m,
      card_colors = Some cs, card_type_line = t, card_power = None, card_toughness = None\<rparr>"

subsection \<open>Pools and draws\<close>

definition zeroDraw :: draw where
  "zeroDraw = \<lparr>rareRoll = 0, rareIndex = 0, uncommonShuffle = [], commonShuffle = [],
               landIndex = 0\<rparr>"

text \<open>A draw whose shuffle of the commons brings the card at position 10 to the front.\<close>

definition landFirstDraw :: draw where
  "landFirstDraw = \<lparr>rareRoll = 0, rareIndex = 0, uncommonShuffle = [], commonShuffle = [10],
                    landIndex = 0\<rparr>"

definition zeroOracle :: init_oracle where
  "zeroOracle = \<lparr>aiColorRolls = (\<lambda>i. 0), packDraws = (\<lambda>i k. [zeroDraw])\<rparr>"

definition mythicCard :: card where
  "mythicCard = mkCard ''m1'' ''Mythic One'' ''mythic'' 4 ''R'' ''Planeswalker''"

definition rareCard :: card where
  "rareCard = mkCard ''r2'' ''Rare One'' ''rare'' 3 ''B'' ''Sorcery''"

definition uncommons3 :: "card list" where
  "uncommons3 =
     [mkCard ''u1'' ''Uncommon 1'' ''uncommon'' 2 ''U'' ''Instant'',
      mkCard ''u2'' ''Uncommon 2'' ''uncommon'' 2 ''U'' ''Instant'',
      mkCard ''u3'' ''Uncommon 3'' ''uncommon'' 2 ''U'' ''Instant'']"

definition commons10 :: "card list" where
  "commons10 =
     [mkCard ''c0'' ''Common 0'' ''common'' 1 ''G'' ''Creature'',
      mkCard ''c1'' ''Common 1'' ''common'' 1 ''G'' ''Creature'',
      mkCard ''c2'' ''Common 2'' ''common'' 1 ''G'' ''Creature'',
      mkCard ''c3'' ''Common 3'' ''common'' 1 ''G'' ''Creature'',
      mkCard ''c4'' ''Common 4'' ''common'' 1 ''G'' ''Creature'',
      mkCard ''c5'' ''Common 5'' ''common'' 1 ''G'' ''Creature'',
      mkCard ''c6'' ''Common 6'' ''common'' 1 ''G'' ''Creature'',
      mkCard ''c7'' ''Common 7'' ''common'' 1 ''G'' ''Creature'',
      mkCard ''c8'' ''Common 8'' ''common'' 1 ''G'' ''Creature'',
      mkCard ''c9'' ''Common 9'' ''common'' 1 ''G'' ''Creature'']"

definition commonForest :: card where
  "commonForest = mkCard ''l2'' ''Forest'' ''common'' 0 [] ''Basic Land - Forest''"

definition rareForest :: card where
  "rareForest = mkCard ''l3'' ''Forest'' ''rare'' 0 [] ''Basic Land - Forest''"

definition typicalPool :: "card list" where
  "typicalPool = [mythicCard, rareCard] @ uncommons3 @ commons10 @ [commonForest]"

definition typicalPack :: "card list" where
  "typicalPack = [mythicCard] @ uncommons3 @ commons10 @ [commonForest]"

definition rareLandPool :: "card list" where
  "rareLandPool = [rareCard] @ uncommons3 @ commons10 @ [rareForest]"

subsection \<open>Cards, seats and statistics\<close>

definition relic :: card where
  "relic = mkCard ''r1'' ''Relic'' ''rare'' 2 [] ''Artifact''"

definition forest :: card where
  "forest = mkCard ''l1'' ''Forest'' ''special'' 0 [] ''Basic Land - Forest''"

definition island :: card where
  "island = mkCard ''l9'' ''Island'' ''special'' 0 [] ''Basic Land - Island''"

definition whiteCard :: card where
  "whiteCard = mkCard ''w1'' ''White Card'' ''common'' 2 ''W'' ''Creature''"

definition whiteCard2 :: card where
  "whiteCard2 = mkCard ''w2'' ''White Card'' ''common'' 2 ''W'' ''Creature''"

definition blueCard :: card where
  "blueCard = mkCard ''u1'' ''Blue Card'' ''common'' 2 ''U'' ''Creature''"

definition blueCard2 :: card where
  "blueCard2 = mkCard ''u2'' ''Blue Card'' ''common'' 2 ''U'' ''Creature''"

definition blackCard :: card where
  "blackCard = mkCard ''b1'' ''Black Card'' ''common'' 2 ''B'' ''Creature''"

definition aiSeat :: "string \<Rightarrow> card list \<Rightarrow> player" where
  "aiSeat cs drafted =
     \<lparr>player_id = ''AI_1'', colors = cs, draftedCards = drafted, sideboard = [], packs = []\<rparr>"



definition seatName :: "nat \<Rightarrow> string" where
  "seatName i = (if i = 0 then ''human'' else ''AI_'' @ string_of_nat i)"

definition tokenCard :: "nat \<Rightarrow> card" where
  "tokenCard i = mkCard (''p'' @ string_of_nat i) ''Token'' ''common'' 1 [] ''Creature''"

text \<open>Eight seats, seat \<open>i\<close> holding the one-card pack \<open>[tokenCard i]\<close> in every round.\<close>

definition passTable :: "player list" where
  "passTable =
     map (\<lambda>i. \<lparr>player_id = seatName i, colors = [], draftedCards = [], sideboard = [],
               packs = [[tokenCard i], [tokenCard i], [tokenCard i]]\<rparr>)
         [0, 1, 2, 3, 4, 5, 6, 7]"

text \<open>The same table with a pack of two different basic lands and a relic at seat 2.\<close>

definition twoLandTable :: "player list" where
  "twoLandTable =
     passTable[2 := (passTable ! 2)\<lparr>packs := [[forest, relic, island], [tokenCard 2],
                                              [tokenCard 2]]\<rparr>]"

subsection \<open>A draft on the pool of a relic and a forest\<close>

text \<open>Eight seats that differ in name, affinity and drafted cards between the human and the rest.\<close>

definition seats ::
  "string \<Rightarrow> string \<Rightarrow> card list \<Rightarrow> card list \<Rightarrow> card list list \<Rightarrow> player list" where
  "seats humanColors aiColors humanCards aiCards pks =
     map (\<lambda>i. \<lparr>player_id = seatName i,
               colors = (if i = 0 then humanColors else aiColors),
               draftedCards = (if i = 0 then humanCards else aiCards),
               sideboard = [], packs = pks\<rparr>)
         [0, 1, 2, 3, 4, 5, 6, 7]"

definition freshDraft :: app where
  "freshDraft = initialApp
     \<lparr>players := seats [] ''W'' [] [] [[relic, forest], [relic, forest], [relic, forest]]\<rparr>"

definition afterFirstPick :: app where
  "afterFirstPick = initialApp
     \<lparr>players := seats ''WU'' ''WU'' [relic] [relic] [[forest], [relic, forest], [relic, forest]],
      currentPackIndex := 1,
      draftHistory := [(players freshDraft, 0)]\<rparr>"

definition roundTwo :: app where
  "roundTwo = initialApp
     \<lparr>players := seats ''WU'' ''WU'' [relic, forest] [relic, forest]
                   [[], [relic, forest], [relic, forest]],
      currentRound := 2\<rparr>"

definition roundTwoSecond :: app where
  "roundTwoSecond = initialApp
     \<lparr>players := seats ''WU'' ''WU'' [relic, forest, relic] [relic, forest, relic]
                   [[], [forest], [relic, forest]],
      currentRound := 2, currentPackIndex := 1,
      draftHistory := [(players roundTwo, 0)]\<rparr>"

definition roundThree :: app where
  "roundThree = initialApp
     \<lparr>players := seats ''WU'' ''WU'' [relic, forest, relic, forest] [relic, forest, relic, forest]
                   [[], [], [relic, forest]],
      currentRound := 3\<rparr>"

definition roundThreeSecond :: app where
  "roundThreeSecond = initialApp
     \<lparr>players := seats ''WU'' ''WU'' [relic, forest, relic, forest, relic]
                   [relic, forest, relic, forest, relic] [[], [], [forest]],
      currentRound := 3, currentPackIndex := 1,
      draftHistory := [(players roundThree, 0)]\<rparr>"

definition sixCards :: "card list" where
  "sixCards = [relic, forest, relic, forest, relic, forest]"

text \<open>The state at the end of that draft.\<close>

definition draftOver :: app where
  "draftOver = initialApp
     \<lparr>players := seats ''WU'' ''WU'' sixCards sixCards [[], [], []],
      currentRound := 3, currentPackIndex := 1, draftComplete := True\<rparr>"

subsection \<open>A draft that leaves the human seat without a pack\<close>




section \<open>Pack generator: composition of a generated pack\<close>

subsection \<open>Shuffles and sorts permute\<close>

lemma mset_shuffle_by: "mset (shuffle_by ks xs) = mset xs"
proof (induction ks xs rule: shuffle_by.induct)
  case (3 k ks x xs)
  let ?ys = "x # xs"
  let ?i = "k mod length ?ys"
  have i: "?i < length ?ys" by simp
  have "mset ?ys = mset (take ?i ?ys @ ?ys ! ?i # drop (Suc ?i) ?ys)"
    using id_take_nth_drop[OF i] by simp
  also have "\<dots> = add_mset (?ys ! ?i) (mset (take ?i ?ys @ drop (Suc ?i) ?ys))"
    by simp
  finally show ?case using 3 by (simp add: Let_def)
qed simp_all

lemma distinct_shuffle_by: "distinct xs \<Longrightarrow> distinct (shuffle_by ks xs)"
  using mset_shuffle_by[of ks xs] by (metis mset_eq_imp_distinct_iff)

lemma set_shuffle_by: "set (shuffle_by ks xs) = set xs"
  using mset_shuffle_by[of ks xs] by (metis mset_eq_setD)

lemma length_shuffle_by: "length (shuffle_by ks xs) = length xs"
  using mset_shuffle_by[of ks xs] by (metis mset_eq_length)

lemma shuffle_by_Nil: "shuffle_by [] xs = xs"
  by (cases xs) simp_all

lemma mset_insertBy: "mset (insertBy cmp x xs) = add_mset x (mset xs)"
  by (induction xs) auto

lemma mset_jsSort: "mset (jsSort cmp xs) = mset xs"
  unfolding jsSort_def by (induction xs) (auto simp: mset_insertBy)

lemma length_filter_mset: "mset xs = mset ys \<Longrightarrow> length (filter P xs) = length (filter P ys)"
  by (metis mset_filter size_mset)

subsection \<open>A random index into a non-empty array is in range\<close>

lemma pickAt_member:
  assumes "0 \<le> r" "r < 1" "xs \<noteq> []"
  shows "\<exists>x \<in> set xs. pickAt r xs = Some x"
proof -
  let ?n = "length xs"
  have n: "0 < ?n" using assms(3) by simp
  have lo: "0 \<le> r * of_nat ?n" using assms(1) by simp
  have hi: "r * of_nat ?n < of_nat ?n" using assms(2) n by simp
  have f0: "0 \<le> \<lfloor>r * of_nat ?n\<rfloor>" using lo by simp
  have f1: "\<lfloor>r * of_nat ?n\<rfloor> < int ?n" using hi by (simp add: floor_less_iff)
  have lt: "nat \<lfloor>r * of_nat ?n\<rfloor> < ?n" using f1 nat_less_iff[OF f0] by blast
  have "pickAt r xs = Some (xs ! nat \<lfloor>r * of_nat ?n\<rfloor>)"
    using f0 f1 unfolding pickAt_def Let_def by (simp only: if_True simp_thms)
  then show ?thesis using nth_mem[OF lt] by blast
qed

subsection \<open>The slots of an accepted attempt\<close>

lemma assemblePack_shape:
  assumes rolls: "0 \<le> rareIndex d" "rareIndex d < 1" "0 \<le> landIndex d" "landIndex d < 1"
    and dist: "distinct cards"
    and rare: "1 \<le> length (filter (hasRarity ''rare'') cards)"
    and unc: "3 \<le> length (filter (hasRarity ''uncommon'') cards)"
    and com: "10 \<le> length (filter (\<lambda>c. hasRarity ''common'' c \<and> \<not> isBasicLand c) cards)"
    and land: "1 \<le> length (filter isBasicLand cards)"
    and one: "length (filter isBasicLand (assemblePack d cards)) = 1"
  shows "\<exists>r us cs l. assemblePack d cards = [r] @ us @ cs @ [l]
           \<and> r \<in> set cards \<and> (hasRarity ''rare'' r \<or> hasRarity ''mythic'' r) \<and> \<not> isBasicLand r
           \<and> length us = 3 \<and> distinct us
           \<and> (\<forall>u \<in> set us. u \<in> set cards \<and> hasRarity ''uncommon'' u \<and> \<not> isBasicLand u)
           \<and> length cs = 10 \<and> distinct cs
           \<and> (\<forall>c \<in> set cs. c \<in> set cards \<and> hasRarity ''common'' c \<and> \<not> isBasicLand c)
           \<and> l \<in> set cards \<and> isBasicLand l"
proof -
  let ?commons = "filter (hasRarity ''common'') cards"
  let ?uncommons = "filter (hasRarity ''uncommon'') cards"
  let ?rares = "filter (hasRarity ''rare'') cards"
  let ?mythics = "filter (hasRarity ''mythic'') cards"
  let ?lands = "filter isBasicLand cards"
  let ?rom = "if ?mythics \<noteq> [] \<and> rareRoll d < 1 / 8 then ?mythics else ?rares"
  let ?us = "take 3 (shuffle_by (uncommonShuffle d) ?uncommons)"
  let ?cs = "take 10 (shuffle_by (commonShuffle d) ?commons)"
  have rom_ne: "?rom \<noteq> []" using rare by auto
  obtain r where r: "r \<in> set ?rom" "pickAt (rareIndex d) ?rom = Some r"
    using pickAt_member[OF rolls(1,2) rom_ne] by blast
  have lands_ne: "?lands \<noteq> []" using land by auto
  obtain l where l: "l \<in> set ?lands" "pickAt (landIndex d) ?lands = Some l"
    using pickAt_member[OF rolls(3,4) lands_ne] by blast
  have shape: "assemblePack d cards = [r] @ ?us @ ?cs @ [l]"
    using r(2) l(2) rom_ne lands_ne by (simp add: assemblePack_def Let_def)
  have lland: "isBasicLand l" and lin: "l \<in> set cards" using l(1) by auto
  have tot: "length (filter isBasicLand [r]) + (length (filter isBasicLand ?us)
               + (length (filter isBasicLand ?cs) + length (filter isBasicLand [l]))) = 1"
    using one unfolding shape by (simp only: filter_append length_append)
  have "length (filter isBasicLand [l]) = 1" using lland by simp
  with tot have cnt: "length (filter isBasicLand [r]) + length (filter isBasicLand ?us)
               + length (filter isBasicLand ?cs) = 0"
    by linarith
  have rnl: "\<not> isBasicLand r" using cnt by auto
  have unl: "\<forall>u \<in> set ?us. \<not> isBasicLand u" using cnt by (auto simp: filter_empty_conv)
  have cnl: "\<forall>c \<in> set ?cs. \<not> isBasicLand c" using cnt by (auto simp: filter_empty_conv)
  have rr: "r \<in> set cards" "hasRarity ''rare'' r \<or> hasRarity ''mythic'' r"
    using r(1) by (auto split: if_splits)
  have us_sub: "set ?us \<subseteq> set ?uncommons"
    using set_take_subset[of 3 "shuffle_by (uncommonShuffle d) ?uncommons"]
    by (simp add: set_shuffle_by)
  have cs_sub: "set ?cs \<subseteq> set ?commons"
    using set_take_subset[of 10 "shuffle_by (commonShuffle d) ?commons"]
    by (simp add: set_shuffle_by)
  have ulen: "length ?us = 3" using unc by (simp add: length_shuffle_by)
  have "length (filter (\<lambda>c. hasRarity ''common'' c \<and> \<not> isBasicLand c) cards) \<le> length ?commons"
    using length_filter_le[of "\<lambda>c. \<not> isBasicLand c" ?commons] by (simp add: conj_commute)
  then have clen: "length ?cs = 10" using com by (simp add: length_shuffle_by)
  have udist: "distinct ?us" using dist by (simp add: distinct_shuffle_by)
  have cdist: "distinct ?cs" using dist by (simp add: distinct_shuffle_by)
  show ?thesis
    apply (rule exI[of _ r], rule exI[of _ ?us], rule exI[of _ ?cs], rule exI[of _ l])
    using shape rr rnl ulen udist us_sub unl clen cdist cs_sub cnl lin lland
    by auto
qed

lemma hasRarity_unique: "hasRarity a c \<Longrightarrow> hasRarity b c \<Longrightarrow> a = b"
  by (simp add: hasRarity_def)

lemma slots_counts:
  assumes r: "hasRarity ''rare'' r \<or> hasRarity ''mythic'' r" "\<not> isBasicLand r"
    and us: "length us = 3" "\<forall>u \<in> set us. hasRarity ''uncommon'' u \<and> \<not> isBasicLand u"
    and cs: "length cs = 10" "\<forall>c \<in> set cs. hasRarity ''common'' c \<and> \<not> isBasicLand c"
    and l: "isBasicLand l"
  shows "length ([r] @ us @ cs @ [l]) = 15"
    and "length (filter isBasicLand ([r] @ us @ cs @ [l])) = 1"
    and "length (filter nonLandRare ([r] @ us @ cs @ [l])) = 1"
    and "length (filter nonLandUncommon ([r] @ us @ cs @ [l])) = 3"
    and "length (filter nonLandCommon ([r] @ us @ cs @ [l])) = 10"
proof -
  show "length ([r] @ us @ cs @ [l]) = 15" using us(1) cs(1) by simp
  have lu: "filter isBasicLand us = []" and lc: "filter isBasicLand cs = []"
    using us(2) cs(2) by (auto simp: filter_empty_conv)
  show "length (filter isBasicLand ([r] @ us @ cs @ [l])) = 1"
    using r(2) l lu lc by simp
  have ru: "filter nonLandRare us = []" and rc: "filter nonLandRare cs = []"
    using us(2) cs(2) by (auto simp: filter_empty_conv nonLandRare_def dest: hasRarity_unique)
  show "length (filter nonLandRare ([r] @ us @ cs @ [l])) = 1"
    using r l ru rc by (simp add: nonLandRare_def)
  have uu: "filter nonLandUncommon us = us" and uc: "filter nonLandUncommon cs = []"
    using us(2) cs(2)
    by (auto simp: filter_empty_conv filter_id_conv nonLandUncommon_def dest: hasRarity_unique)
  have ur: "\<not> nonLandUncommon r"
    using r(1) by (auto simp: nonLandUncommon_def dest: hasRarity_unique)
  show "length (filter nonLandUncommon ([r] @ us @ cs @ [l])) = 3"
    using ur l uu uc us(1) by (simp add: nonLandUncommon_def)
  have cu: "filter nonLandCommon us = []" and cc: "filter nonLandCommon cs = cs"
    using us(2) cs(2)
    by (auto simp: filter_empty_conv filter_id_conv nonLandCommon_def dest: hasRarity_unique)
  have cr: "\<not> nonLandCommon r"
    using r(1) by (auto simp: nonLandCommon_def dest: hasRarity_unique)
  show "length (filter nonLandCommon ([r] @ us @ cs @ [l])) = 10"
    using cr l cu cc cs(1) by (simp add: nonLandCommon_def)
qed

lemma slots_distinct:
  assumes r: "hasRarity ''rare'' r \<or> hasRarity ''mythic'' r" "\<not> isBasicLand r"
    and us: "distinct us" "\<forall>u \<in> set us. hasRarity ''uncommon'' u \<and> \<not> isBasicLand u"
    and cs: "distinct cs" "\<forall>c \<in> set cs. hasRarity ''common'' c \<and> \<not> isBasicLand c"
    and l: "isBasicLand l"
  shows "distinct ([r] @ us @ cs @ [l])"
proof -
  have "r \<notin> set us" "r \<notin> set cs" "r \<noteq> l"
    using r us(2) cs(2) l by (auto dest: hasRarity_unique)
  moreover have "l \<notin> set us" "l \<notin> set cs" using us(2) cs(2) l by auto
  moreover have "set us \<inter> set cs = {}" using us(2) cs(2) by (auto dest: hasRarity_unique)
  ultimately show ?thesis using us(1) cs(1) by auto
qed

lemma generatePack_accepted:
  assumes "generatePack ds cards = Some pack"
  shows "\<exists>d \<in> set ds. length (filter isBasicLand (assemblePack d cards)) = 1
                   \<and> pack = jsSort rarityCompare (assemblePack d cards)"
  using assms by (induction ds) (auto simp: Let_def split: if_splits)

text \<open>
  Claim C1, as amended. On a pool of cards with pairwise distinct identifiers that has a rare,
  three uncommons, ten commons that are not basic lands and a basic land, every pack
  \<open>generatePack\<close> returns (the random indices lying in \<open>[0, 1)\<close>) has 15 cards with pairwise
  distinct identifiers: exactly one basic land and, among the cards that are not basic lands,
  exactly one rare or mythic, three uncommons and ten commons. Where no basic land of the pool
  is rare, mythic or uncommon, these are also the numbers of rare-or-mythic cards and of
  uncommons in the whole pack.
\<close>

theorem generatePack_composition:
  assumes gen: "generatePack ds cards = Some pack"
    and rolls: "\<forall>d \<in> set ds. 0 \<le> rareIndex d \<and> rareIndex d < 1
                              \<and> 0 \<le> landIndex d \<and> landIndex d < 1"
    and ids: "distinct (map card_id cards)"
    and rare: "1 \<le> length (filter (hasRarity ''rare'') cards)"
    and unc: "3 \<le> length (filter (hasRarity ''uncommon'') cards)"
    and com: "10 \<le> length (filter (\<lambda>c. hasRarity ''common'' c \<and> \<not> isBasicLand c) cards)"
    and land: "1 \<le> length (filter isBasicLand cards)"
  shows "length pack = 15
       \<and> length (filter isBasicLand pack) = 1
       \<and> length (filter nonLandRare pack) = 1
       \<and> length (filter nonLandUncommon pack) = 3
       \<and> length (filter nonLandCommon pack) = 10
       \<and> distinct (map card_id pack)
       \<and> ((\<forall>c \<in> set cards. isBasicLand c \<longrightarrow>
              \<not> hasRarity ''rare'' c \<and> \<not> hasRarity ''mythic'' c \<and> \<not> hasRarity ''uncommon'' c)
            \<longrightarrow> length (filter (\<lambda>c. hasRarity ''rare'' c \<or> hasRarity ''mythic'' c) pack) = 1
              \<and> length (filter (hasRarity ''uncommon'') pack) = 3)"
proof -
  obtain d where d: "d \<in> set ds" "length (filter isBasicLand (assemblePack d cards)) = 1"
      "pack = jsSort rarityCompare (assemblePack d cards)"
    using generatePack_accepted[OF gen] by blast
  have dist: "distinct cards" and inj: "inj_on card_id (set cards)"
    using ids by (simp_all add: distinct_map)
  have dr: "0 \<le> rareIndex d" "rareIndex d < 1" "0 \<le> landIndex d" "landIndex d < 1"
    using rolls d(1) by auto
  obtain r us cs l where sh: "assemblePack d cards = [r] @ us @ cs @ [l]"
      and r: "r \<in> set cards" "hasRarity ''rare'' r \<or> hasRarity ''mythic'' r" "\<not> isBasicLand r"
      and us: "length us = 3" "distinct us"
              "\<forall>u \<in> set us. u \<in> set cards \<and> hasRarity ''uncommon'' u \<and> \<not> isBasicLand u"
      and cs: "length cs = 10" "distinct cs"
              "\<forall>c \<in> set cs. c \<in> set cards \<and> hasRarity ''common'' c \<and> \<not> isBasicLand c"
      and l: "l \<in> set cards" "isBasicLand l"
    using assemblePack_shape[OF dr dist rare unc com land d(2)] by blast
  have us': "\<forall>u \<in> set us. hasRarity ''uncommon'' u \<and> \<not> isBasicLand u" using us(3) by blast
  have cs': "\<forall>c \<in> set cs. hasRarity ''common'' c \<and> \<not> isBasicLand c" using cs(3) by blast
  have m: "mset pack = mset ([r] @ us @ cs @ [l])"
    using d(3) sh by (simp only: mset_jsSort)
  have len: "length pack = 15"
    using mset_eq_length[OF m] slots_counts(1)[OF r(2,3) us(1) us' cs(1) cs' l(2)] by simp
  have c1: "length (filter isBasicLand pack) = 1"
    using length_filter_mset[OF m] slots_counts(2)[OF r(2,3) us(1) us' cs(1) cs' l(2)] by simp
  have c2: "length (filter nonLandRare pack) = 1"
    using length_filter_mset[OF m] slots_counts(3)[OF r(2,3) us(1) us' cs(1) cs' l(2)] by simp
  have c3: "length (filter nonLandUncommon pack) = 3"
    using length_filter_mset[OF m] slots_counts(4)[OF r(2,3) us(1) us' cs(1) cs' l(2)] by simp
  have c4: "length (filter nonLandCommon pack) = 10"
    using length_filter_mset[OF m] slots_counts(5)[OF r(2,3) us(1) us' cs(1) cs' l(2)] by simp
  have dp: "distinct pack"
    using mset_eq_imp_distinct_iff[OF m] slots_distinct[OF r(2,3) us(2) us' cs(2) cs' l(2)]
    by simp
  have sub: "set pack \<subseteq> set cards"
    using mset_eq_setD[OF m] r(1) us(3) cs(3) l(1) by auto
  have "inj_on card_id (set pack)" using inj sub by (rule inj_on_subset)
  then have ids': "distinct (map card_id pack)" using dp by (simp add: distinct_map)
  have whole: "length (filter (\<lambda>c. hasRarity ''rare'' c \<or> hasRarity ''mythic'' c) pack) = 1
              \<and> length (filter (hasRarity ''uncommon'') pack) = 3"
    if h: "\<forall>c \<in> set cards. isBasicLand c \<longrightarrow>
             \<not> hasRarity ''rare'' c \<and> \<not> hasRarity ''mythic'' c \<and> \<not> hasRarity ''uncommon'' c"
  proof -
    have "filter (\<lambda>c. hasRarity ''rare'' c \<or> hasRarity ''mythic'' c) pack = filter nonLandRare pack"
      using h sub by (intro filter_cong) (auto simp: nonLandRare_def)
    moreover have "filter (hasRarity ''uncommon'') pack = filter nonLandUncommon pack"
      using h sub by (intro filter_cong) (auto simp: nonLandUncommon_def)
    ultimately show ?thesis using c2 c3 by simp
  qed
  show ?thesis using len c1 c2 c3 c4 ids' whole by blast
qed

subsection \<open>The theorem at a pool of sixteen cards, and a pool with a rare basic land\<close>

lemma land_cards:
  "isBasicLand commonForest" "isBasicLand rareForest"
  "\<not> isBasicLand mythicCard" "\<not> isBasicLand rareCard"
  by (simp_all add: isBasicLand_def commonForest_def rareForest_def mythicCard_def rareCard_def
        mkCard_def)

lemma land_lists:
  "filter isBasicLand uncommons3 = []" "filter isBasicLand commons10 = []"
  by (simp_all add: isBasicLand_def uncommons3_def commons10_def mkCard_def)

lemma rarity_cards:
  "hasRarity r mythicCard = (r = ''mythic'')" "hasRarity r rareCard = (r = ''rare'')"
  "hasRarity r commonForest = (r = ''common'')" "hasRarity r rareForest = (r = ''rare'')"
  by (auto simp: hasRarity_def commonForest_def rareForest_def mythicCard_def rareCard_def
        mkCard_def)

lemma rarity_lists:
  "filter (hasRarity r) uncommons3 = (if r = ''uncommon'' then uncommons3 else [])"
  "filter (hasRarity r) commons10 = (if r = ''common'' then commons10 else [])"
  by (auto simp: hasRarity_def uncommons3_def commons10_def mkCard_def)

lemma lengths_lists: "length uncommons3 = 3" "length commons10 = 10"
  by (simp_all add: uncommons3_def commons10_def)

lemma assemble_typical_zero: "assemblePack zeroDraw typicalPool = typicalPack"
  by (simp add: assemblePack_def typicalPool_def typicalPack_def zeroDraw_def rarity_cards
        rarity_lists land_cards land_lists pickAt_def shuffle_by_Nil)
     (simp add: uncommons3_def commons10_def)

lemma assemble_typical_landFirst:
  "assemblePack landFirstDraw typicalPool
     = [mythicCard] @ uncommons3 @ [commonForest] @ butlast commons10 @ [commonForest]"
  by (simp add: assemblePack_def typicalPool_def landFirstDraw_def rarity_cards rarity_lists
        land_cards land_lists pickAt_def shuffle_by_Nil)
     (simp add: uncommons3_def commons10_def shuffle_by_Nil)

lemma assemble_rareLand: "assemblePack zeroDraw rareLandPool = rareLandPool"
  by (simp add: assemblePack_def rareLandPool_def zeroDraw_def rarity_cards
        rarity_lists land_cards land_lists pickAt_def shuffle_by_Nil)
     (simp add: uncommons3_def commons10_def)

lemma rarityOrder_cards:
  "rarityOrder mythicCard = Some 1" "rarityOrder rareCard = Some 2"
  "rarityOrder commonForest = Some 5" "rarityOrder rareForest = Some 5"
  "\<forall>c \<in> set uncommons3. rarityOrder c = Some 3" "\<forall>c \<in> set commons10. rarityOrder c = Some 4"
  by (simp_all add: rarityOrder_def land_cards)
     (simp_all add: isBasicLand_def mythicCard_def rareCard_def uncommons3_def commons10_def mkCard_def)

text \<open>A list that is already in the comparator's order is left as it is.\<close>

lemma jsSort_sorted: "sorted_wrt (\<lambda>a b. cmp a b \<le> 0) xs \<Longrightarrow> jsSort cmp xs = xs"
proof (induction xs)
  case Nil
  then show ?case by (simp add: jsSort_def)
next
  case (Cons x xs)
  then have "jsSort cmp xs = xs" by simp
  then have "jsSort cmp (x # xs) = insertBy cmp x xs" by (simp add: jsSort_def)
  then show ?case using Cons.prems by (cases xs) simp_all
qed

lemma sorted_wrt_all: "(\<forall>x \<in> set xs. \<forall>y \<in> set xs. P x y) \<Longrightarrow> sorted_wrt P xs"
  by (induction xs) auto

lemma rarityCompare_keys:
  "rarityOrder a = Some x \<Longrightarrow> rarityOrder b = Some y \<Longrightarrow> x \<le> y \<Longrightarrow> rarityCompare a b \<le> 0"
  by (simp add: rarityCompare_def)

lemma sorted_slots:
  assumes "rarityOrder r = Some kr" "kr \<le> 3"
    and "rarityOrder l = Some 5"
  shows "sorted_wrt (\<lambda>a b. rarityCompare a b \<le> 0) ([r] @ uncommons3 @ commons10 @ [l])"
proof -
  have u: "\<forall>c \<in> set uncommons3. rarityOrder c = Some 3"
    and c: "\<forall>c \<in> set commons10. rarityOrder c = Some 4"
    by (rule rarityOrder_cards)+
  have su: "sorted_wrt (\<lambda>a b. rarityCompare a b \<le> 0) uncommons3"
    using u by (intro sorted_wrt_all) (auto intro: rarityCompare_keys)
  have sc: "sorted_wrt (\<lambda>a b. rarityCompare a b \<le> 0) commons10"
    using c by (intro sorted_wrt_all) (auto intro: rarityCompare_keys)
  have ru: "\<forall>c \<in> set uncommons3. rarityCompare r c \<le> 0"
    using u assms(1,2) by (auto intro: rarityCompare_keys)
  have rc: "\<forall>c \<in> set commons10. rarityCompare r c \<le> 0"
    using c assms(1,2) by (auto intro!: rarityCompare_keys[of r kr _ 4])
  have rl: "rarityCompare r l \<le> 0"
    using assms by (auto intro!: rarityCompare_keys[of r kr l 5])
  have uc: "\<forall>a \<in> set uncommons3. \<forall>b \<in> set commons10. rarityCompare a b \<le> 0"
    using u c by (auto intro!: rarityCompare_keys[of _ 3 _ 4])
  have ul: "\<forall>a \<in> set uncommons3. rarityCompare a l \<le> 0"
    using u assms(3) by (auto intro!: rarityCompare_keys[of _ 3 l 5])
  have cl: "\<forall>a \<in> set commons10. rarityCompare a l \<le> 0"
    using c assms(3) by (auto intro!: rarityCompare_keys[of _ 4 l 5])
  show ?thesis
    using su sc ru rc rl uc ul cl by (auto simp: sorted_wrt_append)
qed

lemma generate_typical: "generatePack [landFirstDraw, zeroDraw] typicalPool = Some typicalPack"
proof -
  have "filter isBasicLand (butlast commons10) = []"
    by (simp add: isBasicLand_def commons10_def mkCard_def)
  then have two: "length (filter isBasicLand (assemblePack landFirstDraw typicalPool)) = 2"
    unfolding assemble_typical_landFirst by (simp add: land_cards land_lists)
  have one: "length (filter isBasicLand (assemblePack zeroDraw typicalPool)) = 1"
    unfolding assemble_typical_zero typicalPack_def by (simp add: land_cards land_lists)
  have "sorted_wrt (\<lambda>a b. rarityCompare a b \<le> 0) typicalPack"
    unfolding typicalPack_def by (rule sorted_slots[of _ 1]) (simp_all add: rarityOrder_cards)
  then have "jsSort rarityCompare typicalPack = typicalPack" by (rule jsSort_sorted)
  then show ?thesis using two one by (simp add: assemble_typical_zero)
qed

lemma generate_rareLand: "generatePack [zeroDraw] rareLandPool = Some rareLandPool"
proof -
  have one: "length (filter isBasicLand (assemblePack zeroDraw rareLandPool)) = 1"
    unfolding assemble_rareLand by (simp add: rareLandPool_def land_cards land_lists)
  have "sorted_wrt (\<lambda>a b. rarityCompare a b \<le> 0) rareLandPool"
    unfolding rareLandPool_def by (rule sorted_slots[of _ 2]) (simp_all add: rarityOrder_cards)
  then have "jsSort rarityCompare rareLandPool = rareLandPool" by (rule jsSort_sorted)
  then show ?thesis using one by (simp add: assemble_rareLand)
qed

lemma typicalPool_ids: "distinct (map card_id typicalPool)"
  by (simp add: typicalPool_def mythicCard_def rareCard_def uncommons3_def commons10_def
        commonForest_def mkCard_def)

theorem generatePack_composition_witness:
  "generatePack [landFirstDraw, zeroDraw] typicalPool = Some typicalPack
   \<and> length typicalPack = 15
   \<and> length (filter isBasicLand typicalPack) = 1
   \<and> length (filter nonLandRare typicalPack) = 1
   \<and> length (filter nonLandUncommon typicalPack) = 3
   \<and> length (filter nonLandCommon typicalPack) = 10
   \<and> distinct (map card_id typicalPack)
   \<and> length (filter (\<lambda>c. hasRarity ''rare'' c \<or> hasRarity ''mythic'' c) typicalPack) = 1
   \<and> length (filter (hasRarity ''uncommon'') typicalPack) = 3"
proof -
  have rolls: "\<forall>d \<in> set [landFirstDraw, zeroDraw].
                 0 \<le> rareIndex d \<and> rareIndex d < 1 \<and> 0 \<le> landIndex d \<and> landIndex d < 1"
    by (simp add: landFirstDraw_def zeroDraw_def)
  have rare: "1 \<le> length (filter (hasRarity ''rare'') typicalPool)"
    by (simp add: typicalPool_def rarity_cards rarity_lists)
  have unc: "3 \<le> length (filter (hasRarity ''uncommon'') typicalPool)"
    by (simp add: typicalPool_def rarity_cards rarity_lists lengths_lists)
  have "filter (\<lambda>c. hasRarity ''common'' c \<and> \<not> isBasicLand c) commons10 = commons10"
    using land_lists(2) rarity_lists(2)[of "''common''"]
    by (auto simp: filter_id_conv filter_empty_conv)
  then have com: "10 \<le> length (filter (\<lambda>c. hasRarity ''common'' c \<and> \<not> isBasicLand c) typicalPool)"
    by (simp add: typicalPool_def lengths_lists)
  have land: "1 \<le> length (filter isBasicLand typicalPool)"
    by (simp add: typicalPool_def land_cards)
  have lands: "\<forall>c \<in> set typicalPool. isBasicLand c \<longrightarrow>
          \<not> hasRarity ''rare'' c \<and> \<not> hasRarity ''mythic'' c \<and> \<not> hasRarity ''uncommon'' c"
    using land_lists by (auto simp: typicalPool_def land_cards rarity_cards filter_empty_conv)
  show ?thesis
    using generatePack_composition[OF generate_typical rolls typicalPool_ids rare unc com land]
      generate_typical lands
    by blast
qed

theorem rare_basic_land_counterexample:
  "distinct (map card_id rareLandPool)
   \<and> 1 \<le> length (filter (hasRarity ''rare'') rareLandPool)
   \<and> 3 \<le> length (filter (hasRarity ''uncommon'') rareLandPool)
   \<and> 10 \<le> length (filter (\<lambda>c. hasRarity ''common'' c \<and> \<not> isBasicLand c) rareLandPool)
   \<and> 1 \<le> length (filter isBasicLand rareLandPool)
   \<and> generatePack [zeroDraw] rareLandPool = Some rareLandPool
   \<and> length (filter (\<lambda>c. hasRarity ''rare'' c \<or> hasRarity ''mythic'' c) rareLandPool) = 2"
proof -
  have ids: "distinct (map card_id rareLandPool)"
    by (simp add: rareLandPool_def rareForest_def rareCard_def uncommons3_def commons10_def
          mkCard_def)
  have "filter (\<lambda>c. hasRarity ''common'' c \<and> \<not> isBasicLand c) commons10 = commons10"
    using land_lists(2) rarity_lists(2)[of "''common''"]
    by (auto simp: filter_id_conv filter_empty_conv)
  then have com: "10 \<le> length (filter (\<lambda>c. hasRarity ''common'' c \<and> \<not> isBasicLand c) rareLandPool)"
    by (simp add: rareLandPool_def lengths_lists)
  have "filter (\<lambda>c. hasRarity ''rare'' c \<or> hasRarity ''mythic'' c) uncommons3 = []"
       "filter (\<lambda>c. hasRarity ''rare'' c \<or> hasRarity ''mythic'' c) commons10 = []"
    using rarity_lists[of "''rare''"] rarity_lists[of "''mythic''"]
    by (auto simp: filter_empty_conv)
  then have two: "length (filter (\<lambda>c. hasRarity ''rare'' c \<or> hasRarity ''mythic'' c) rareLandPool) = 2"
    by (simp add: rareLandPool_def rarity_cards)
  show ?thesis
    using ids com two generate_rareLand
    by (simp add: rareLandPool_def rarity_cards rarity_lists land_cards lengths_lists)
qed

section \<open>Pass protocol\<close>

lemma passPacks_nth:
  assumes "i < length ps"
  shows "passPacks ps rnd ! i =
           (ps ! i)\<lparr>packs := (packs (ps ! i))[rnd - 1 :=
              correctLands (packs (ps ! nextIndex rnd (length ps) i) ! (rnd - 1))]\<rparr>"
proof -
  have "0 < length ps" using assms by (cases ps) simp_all
  then have n: "nextIndex rnd (length ps) i < length ps"
    by (simp add: nextIndex_def)
  show ?thesis
    using assms n by (simp add: passPacks_def Let_def nth_enumerate_eq)
qed

lemma correctLands_id: "length (filter isBasicLand pk) \<le> 1 \<Longrightarrow> correctLands pk = pk"
  by (simp add: correctLands_def Let_def)

text \<open>
  Claim C2, as amended. For every table of 8 seats holding a pack for round \<open>r\<close> in 1, 2, 3,
  after \<open>passPacks\<close> seat \<open>i\<close> holds the pack that seat \<open>(i + 1) mod 8\<close> held before in rounds 1
  and 3, and the pack that seat \<open>(i - 1) mod 8\<close> (that is \<open>(i + 7) mod 8\<close>) held before in round
  2, provided that pack has at most one basic land.
\<close>

theorem passPacks_receives:
  assumes "length ps = 8" and "rnd \<in> {1, 2, 3}" and "i < 8"
    and "\<forall>p \<in> set ps. rnd \<le> length (packs p)"
    and "length (filter isBasicLand
           (packs (ps ! (if rnd = 2 then (i + 7) mod 8 else (i + 1) mod 8)) ! (rnd - 1))) \<le> 1"
  shows "packs (passPacks ps rnd ! i) ! (rnd - 1)
           = packs (ps ! (if rnd = 2 then (i + 7) mod 8 else (i + 1) mod 8)) ! (rnd - 1)"
proof -
  have i: "i < length ps" using assms(1,3) by simp
  have "ps ! i \<in> set ps" using i by simp
  then have len: "rnd - 1 < length (packs (ps ! i))" using assms(2,4) by fastforce
  have nx: "nextIndex rnd (length ps) i = (if rnd = 2 then (i + 7) mod 8 else (i + 1) mod 8)"
    using assms(1,2) by (auto simp: nextIndex_def add.commute)
  show ?thesis
    using passPacks_nth[OF i, of rnd] len nx correctLands_id[OF assms(5)] by simp
qed

lemma string_of_nat_small: "n < 10 \<Longrightarrow> string_of_nat n = [''0123456789'' ! n]"
  by (simp add: string_of_nat.simps)

lemma land_forest: "isBasicLand forest" "\<not> isBasicLand relic" "isBasicLand island"
  by (simp_all add: isBasicLand_def forest_def relic_def island_def mkCard_def)

theorem passPacks_receives_witness:
  "packs (passPacks passTable 1 ! 7) ! 0 = [tokenCard 0]
   \<and> packs (passPacks passTable 2 ! 0) ! 1 = [tokenCard 7]"
proof -
  have l: "length passTable = 8" by (simp add: passTable_def)
  have p1: "\<forall>p \<in> set passTable. 1 \<le> length (packs p)" by (simp add: passTable_def)
  have p2: "\<forall>p \<in> set passTable. 2 \<le> length (packs p)" by (simp add: passTable_def)
  have t: "\<not> isBasicLand (tokenCard 0)" "\<not> isBasicLand (tokenCard 7)"
    by (simp_all add: isBasicLand_def tokenCard_def mkCard_def)
  have a: "packs (passTable ! 0) ! 0 = [tokenCard 0]" "packs (passTable ! 7) ! 1 = [tokenCard 7]"
    by (simp_all add: passTable_def)
  have n1: "length (filter isBasicLand
              (packs (passTable ! (if (1::nat) = 2 then (7 + 7) mod 8 else (7 + 1) mod 8)) ! (1 - 1)))
            \<le> 1"
    using a(1) t(1) by simp
  have n2: "length (filter isBasicLand
              (packs (passTable ! (if (2::nat) = 2 then (0 + 7) mod 8 else (0 + 1) mod 8)) ! (2 - 1)))
            \<le> 1"
    using a(2) t(2) by simp
  show ?thesis
    using passPacks_receives[OF l _ _ p1 n1] passPacks_receives[OF l _ _ p2 n2] a
    by simp
qed

text \<open>
  In round 1 seat 1 receives the pack of seat 2, not the pack of seat 0; and where seat 2 holds
  a forest, a relic and an island, seat 1 receives the forest and the relic only.
\<close>

theorem passPacks_direction_counterexample:
  "packs (passPacks passTable 1 ! 1) ! 0 = packs (passTable ! 2) ! 0
   \<and> packs (passPacks passTable 1 ! 1) ! 0 \<noteq> packs (passTable ! 0) ! 0
   \<and> packs (twoLandTable ! 2) ! 0 = [forest, relic, island]
   \<and> packs (passPacks twoLandTable 1 ! 1) ! 0 = [forest, relic]"
proof -
  have a: "packs (passPacks passTable 1 ! 1) ! 0 = packs (passTable ! 2) ! 0
           \<and> packs (passPacks passTable 1 ! 1) ! 0 \<noteq> packs (passTable ! 0) ! 0"
    by (simp add: passPacks_def passTable_def nextIndex_def correctLands_def isBasicLand_def
          tokenCard_def mkCard_def string_of_nat_small)
  have b: "packs (twoLandTable ! 2) ! 0 = [forest, relic, island]"
    by (simp add: twoLandTable_def passTable_def)
  have l: "length twoLandTable = 8" by (simp add: twoLandTable_def passTable_def)
  have ne: "island \<noteq> forest" "island \<noteq> relic"
    by (simp_all add: island_def forest_def relic_def mkCard_def)
  have "correctLands [forest, relic, island] = [forest, relic]"
    using ne by (simp add: correctLands_def land_forest)
  then have c: "packs (passPacks twoLandTable 1 ! 1) ! 0 = [forest, relic]"
    using passPacks_nth[of 1 twoLandTable 1] l b
    by (simp add: nextIndex_def twoLandTable_def passTable_def)
  show ?thesis using a b c by blast
qed

section \<open>Draft state machine: picks, undo and the history\<close>

lemma length_pushHistory: "length (pushHistory h x) \<le> 5"
  by (simp add: pushHistory_def)

lemma pushHistory_last: "pushHistory h x \<noteq> [] \<and> last (pushHistory h x) = x"
  by (simp add: pushHistory_def)

lemma handlePick_history:
  assumes "handlePick c s = Inr s'"
  shows "draftHistory s' = (if allPacksEmpty (updatedPlayers c s) (currentRound s) then []
                            else pushHistory (draftHistory s) (players s, currentPackIndex s))"
  using assms by (auto simp: handlePick_def Let_def split: if_splits)

lemma handlePick_players:
  assumes "handlePick c s = Inr s'"
  shows "players s' = updatedPlayers c s"
  using assms by (auto simp: handlePick_def Let_def split: if_splits)

lemma handlePick_round:
  assumes "handlePick c s = Inr s'"
  shows "currentRound s' =
           (if allPacksEmpty (updatedPlayers c s) (currentRound s) \<and> currentRound s < 3
            then currentRound s + 1 else currentRound s)"
  using assms by (auto simp: handlePick_def Let_def split: if_splits)

lemma handlePick_complete:
  assumes "handlePick c s = Inr s'"
  shows "draftComplete s' =
           (if allPacksEmpty (updatedPlayers c s) (currentRound s) \<and> \<not> currentRound s < 3
            then True else draftComplete s)"
  using assms by (auto simp: handlePick_def Let_def split: if_splits)

lemma step_history_bound:
  assumes "step s cmd s'" "length (draftHistory s) \<le> 5"
  shows "length (draftHistory s') \<le> 5"
  using assms
proof (induction rule: step.induct)
  case (pick s c s')
  then show ?case by (simp add: handlePick_history length_pushHistory)
next
  case (undo s)
  then show ?case by (simp add: undoPickClick_def Let_def)
next
  case (suggestPick s)
  then show ?case by (simp add: suggestPickClick_def Let_def split: option.splits)
next
  case (fetched orc allCards s s')
  then show ?case by (auto simp: cardsFetched_def split: if_splits option.splits)
qed (simp_all add: sortDraftDeck_def moveToSideboard_def moveFromSideboard_def selectSet_def
       addToDeck_def removeFromDeck_def suggestLands_def sortDeck_def)

lemma reachable_history_bound: "reachable s \<Longrightarrow> length (draftHistory s) \<le> 5"
  by (induction rule: reachable.induct) (auto simp: initialApp_def intro: step_history_bound)

subsection \<open>The draft on the pool of a relic and a forest, step by step\<close>

lemma assemble_relic_forest: "assemblePack zeroDraw [relic, forest] = [relic, forest]"
  unfolding assemblePack_def zeroDraw_def relic_def forest_def mkCard_def hasRarity_def
  by (simp add: pickAt_def isBasicLand_def)

lemma generate_relic_forest: "generatePack [zeroDraw] [relic, forest] = Some [relic, forest]"
  by (simp add: assemble_relic_forest land_forest jsSort_def rarityCompare_def rarityOrder_def)

lemma deal_relic_forest:
  "dealPacks \<lparr>aiColorRolls = (\<lambda>i. 0), packDraws = (\<lambda>i k. [zeroDraw])\<rparr> [relic, forest] ip
     = Some ((snd ip)\<lparr>packs := [[relic, forest], [relic, forest], [relic, forest]]\<rparr>)"
  by (simp add: dealPacks_def generate_relic_forest del: generatePack.simps)

lemma fetched_freshDraft:
  "cardsFetched zeroOracle [relic, forest] (selectSet initialApp) = Some freshDraft"
  by (simp add: cardsFetched_def initializeDraft_def deal_relic_forest zeroOracle_def
       initializeAIOpponents_def upt_conv_Cons pickAt_def
       freshDraft_def seats_def seatName_def selectSet_def initialApp_def string_of_nat_small)

lemmas eval_pick =
  pushHistory_def humanPick_def aiPick_def aiPickCard_def calculateCardScore_def
  passPacks_def nextIndex_def correctLands_def isBasicLand_def allPacksEmpty_def
  updatePlayerColors_def colorCounts_def cardColors_def jsSort_def statField_def
  statsScore_def fallbackScore_def rarityScore_def cmcScore_def typeScore_def
  cardColorInfo_def truthyArray_def colorScore_def getColorPairBonus_def Let_def

lemma pick_relic: "handlePick relic freshDraft = Inr afterFirstPick"
  unfolding handlePick_def updatedPlayers_def freshDraft_def afterFirstPick_def seats_def
    seatName_def initialApp_def relic_def forest_def mkCard_def
  by (simp add: eval_pick)

lemma pick_forest: "handlePick forest afterFirstPick = Inr roundTwo"
  unfolding handlePick_def updatedPlayers_def roundTwo_def afterFirstPick_def seats_def
    seatName_def initialApp_def relic_def forest_def mkCard_def
  by (simp add: eval_pick)

lemma pick_relic_two: "handlePick relic roundTwo = Inr roundTwoSecond"
  unfolding handlePick_def updatedPlayers_def roundTwo_def roundTwoSecond_def seats_def
    seatName_def initialApp_def relic_def forest_def mkCard_def
  by (simp add: eval_pick)

lemma pick_forest_two: "handlePick forest roundTwoSecond = Inr roundThree"
  unfolding handlePick_def updatedPlayers_def roundThree_def roundTwoSecond_def seats_def
    seatName_def initialApp_def relic_def forest_def mkCard_def
  by (simp add: eval_pick)

lemma pick_relic_three: "handlePick relic roundThree = Inr roundThreeSecond"
  unfolding handlePick_def updatedPlayers_def roundThree_def roundThreeSecond_def seats_def
    seatName_def initialApp_def relic_def forest_def mkCard_def
  by (simp add: eval_pick)

lemma pick_forest_three: "handlePick forest roundThreeSecond = Inr draftOver"
  unfolding handlePick_def updatedPlayers_def draftOver_def roundThreeSecond_def seats_def
    seatName_def initialApp_def sixCards_def relic_def forest_def mkCard_def
  by (simp add: eval_pick)

lemma humanPack_states:
  "humanPack freshDraft = [relic, forest]" "humanPack afterFirstPick = [forest]"
  "humanPack roundTwo = [relic, forest]" "humanPack roundTwoSecond = [forest]"
  "humanPack roundThree = [relic, forest]" "humanPack roundThreeSecond = [forest]"
  "humanPack draftOver = []"
  by (simp_all add: humanPack_def freshDraft_def afterFirstPick_def roundTwo_def
        roundTwoSecond_def roundThree_def roundThreeSecond_def draftOver_def seats_def
        initialApp_def)

lemma packShown_states:
  "packShown freshDraft" "packShown afterFirstPick" "packShown roundTwo"
  "packShown roundTwoSecond" "packShown roundThree" "packShown roundThreeSecond"
  by (simp_all add: packShown_def draftShown_def humanPack_states)
     (simp_all add: freshDraft_def afterFirstPick_def roundTwo_def roundTwoSecond_def
        roundThree_def roundThreeSecond_def initialApp_def)

lemma reachable_freshDraft: "reachable freshDraft"
  using reach_step[OF reach_step[OF reach_init changeSet] fetched[OF fetched_freshDraft]] .

lemma reachable_afterFirstPick: "reachable afterFirstPick"
  using reach_step[OF reachable_freshDraft pick[OF packShown_states(1) _ pick_relic]]
  by (simp add: humanPack_states)

lemma reachable_roundTwo: "reachable roundTwo"
  using reach_step[OF reachable_afterFirstPick pick[OF packShown_states(2) _ pick_forest]]
  by (simp add: humanPack_states)

lemma reachable_roundTwoSecond: "reachable roundTwoSecond"
  using reach_step[OF reachable_roundTwo pick[OF packShown_states(3) _ pick_relic_two]]
  by (simp add: humanPack_states)

lemma reachable_roundThree: "reachable roundThree"
  using reach_step[OF reachable_roundTwoSecond pick[OF packShown_states(4) _ pick_forest_two]]
  by (simp add: humanPack_states)

lemma reachable_roundThreeSecond: "reachable roundThreeSecond"
  using reach_step[OF reachable_roundThree pick[OF packShown_states(5) _ pick_relic_three]]
  by (simp add: humanPack_states)

lemma reachable_draftOver: "reachable draftOver"
  using reach_step[OF reachable_roundThreeSecond pick[OF packShown_states(6) _ pick_forest_three]]
  by (simp add: humanPack_states)

lemma seats_nth0:
  "draftedCards (hd (seats hc ac hcards acards pks)) = hcards"
  "colors (hd (seats hc ac hcards acards pks)) = hc"
  by (simp_all add: seats_def)

subsection \<open>Undo after a pick\<close>

text \<open>
  Claim C3, as amended. For every state and card on which \<open>handlePick\<close> runs, if the pick does
  not end the round (some seat's current-round pack is non-empty after the pass), then undo,
  by the button or by \<open>handleUndo\<close>, restores the seats and the pick index to their values
  immediately before the pick.
\<close>

theorem pick_then_undo:
  assumes "handlePick c s = Inr s'"
    and "\<not> allPacksEmpty (players s') (currentRound s)"
  shows "players (undoPickClick s') = players s
       \<and> currentPackIndex (undoPickClick s') = currentPackIndex s
       \<and> players (handleUndo s') = players s
       \<and> currentPackIndex (handleUndo s') = currentPackIndex s"
proof -
  have ps: "players s' = updatedPlayers c s" using assms(1) by (rule handlePick_players)
  have h: "draftHistory s' = pushHistory (draftHistory s) (players s, currentPackIndex s)"
    using assms handlePick_history[of c s s'] ps by simp
  have ne: "draftHistory s' \<noteq> []"
    and l: "last (draftHistory s') = (players s, currentPackIndex s)"
    using h pushHistory_last[of "draftHistory s" "(players s, currentPackIndex s)"] by simp_all
  have l2: "draftHistory s' ! (length (draftHistory s') - 1) = (players s, currentPackIndex s)"
    using ne l by (simp add: last_conv_nth)
  show ?thesis using ne l l2 by (simp add: undoPickClick_def handleUndo_def Let_def)
qed

theorem pick_then_undo_witness:
  "relic \<in> set (humanPack freshDraft)
   \<and> handlePick relic freshDraft = Inr afterFirstPick
   \<and> players (undoPickClick afterFirstPick) = players freshDraft
   \<and> currentPackIndex (undoPickClick afterFirstPick) = currentPackIndex freshDraft
   \<and> players (handleUndo afterFirstPick) = players freshDraft
   \<and> currentPackIndex (handleUndo afterFirstPick) = currentPackIndex freshDraft"
proof -
  have ne: "\<not> allPacksEmpty (players afterFirstPick) (currentRound freshDraft)"
    by (simp add: allPacksEmpty_def afterFirstPick_def freshDraft_def seats_def initialApp_def)
  show ?thesis
    using pick_then_undo[OF pick_relic ne] pick_relic by (simp add: humanPack_states)
qed

text \<open>
  The last pick of round 1: the round advances, the history is cleared, and undo leaves the
  seats as the pick made them.
\<close>

theorem pick_then_undo_counterexample:
  "forest \<in> set (humanPack afterFirstPick)
   \<and> handlePick forest afterFirstPick = Inr roundTwo
   \<and> undoPickClick roundTwo = roundTwo
   \<and> handleUndo roundTwo = roundTwo
   \<and> players roundTwo \<noteq> players afterFirstPick"
proof -
  have u: "undoPickClick roundTwo = roundTwo" "handleUndo roundTwo = roundTwo"
    by (simp_all add: undoPickClick_def handleUndo_def roundTwo_def initialApp_def)
  have "draftedCards (hd (players roundTwo)) \<noteq> draftedCards (hd (players afterFirstPick))"
    by (simp add: roundTwo_def afterFirstPick_def seats_nth0)
  then have "players roundTwo \<noteq> players afterFirstPick" by auto
  then show ?thesis using u pick_forest by (simp add: humanPack_states)
qed

subsection \<open>The history is bounded, and cleared at the ends of rounds and on a set change\<close>

text \<open>
  Claim C6. In every reachable state the undo history has at most 5 entries; the history is
  empty after the set selection changes, and after every pick that advances the round or
  completes the draft.
\<close>

theorem undo_history_bounded:
  assumes "reachable s"
  shows "length (draftHistory s) \<le> 5
       \<and> draftHistory (selectSet s) = []
       \<and> (\<forall>c s'. handlePick c s = Inr s'
                  \<and> (currentRound s' \<noteq> currentRound s \<or> (draftComplete s' \<and> \<not> draftComplete s))
             \<longrightarrow> draftHistory s' = [])"
proof (intro conjI allI impI)
  show "length (draftHistory s) \<le> 5" using assms by (rule reachable_history_bound)
  show "draftHistory (selectSet s) = []" by (simp add: selectSet_def)
next
  fix c s'
  assume h: "handlePick c s = Inr s'
      \<and> (currentRound s' \<noteq> currentRound s \<or> (draftComplete s' \<and> \<not> draftComplete s))"
  then have "allPacksEmpty (updatedPlayers c s) (currentRound s)"
    using handlePick_round[of c s s'] handlePick_complete[of c s s'] by (auto split: if_splits)
  then show "draftHistory s' = []" using h handlePick_history[of c s s'] by simp
qed

theorem undo_history_bounded_witness:
  "reachable afterFirstPick \<and> reachable roundThreeSecond
   \<and> length (draftHistory afterFirstPick) = 1
   \<and> draftHistory (selectSet afterFirstPick) = []
   \<and> handlePick forest afterFirstPick = Inr roundTwo
   \<and> currentRound roundTwo \<noteq> currentRound afterFirstPick
   \<and> draftHistory roundTwo = []
   \<and> handlePick forest roundThreeSecond = Inr draftOver
   \<and> draftComplete draftOver \<and> \<not> draftComplete roundThreeSecond
   \<and> draftHistory draftOver = []"
proof -
  have r: "currentRound roundTwo \<noteq> currentRound afterFirstPick"
    by (simp add: roundTwo_def afterFirstPick_def initialApp_def)
  have d: "draftComplete draftOver" "\<not> draftComplete roundThreeSecond"
    by (simp_all add: draftOver_def roundThreeSecond_def initialApp_def)
  have l: "length (draftHistory afterFirstPick) = 1"
    by (simp add: afterFirstPick_def)
  show ?thesis
    using undo_history_bounded[OF reachable_afterFirstPick]
      undo_history_bounded[OF reachable_roundThreeSecond]
      reachable_afterFirstPick reachable_roundThreeSecond pick_forest pick_forest_three r d l
    by blast
qed

subsection \<open>Commands that cannot be carried out\<close>

lemma packCards_shown: "packCards s = (if packShown s then humanPack s else [])"
  by (auto simp: packCards_def packShown_def draftShown_def)

lemma step_pick_iff:
  "step s (Pick c) s' \<longleftrightarrow> c \<in> set (packCards s) \<and> handlePick c s = Inr s'"
  by (auto simp: packCards_shown packShown_def intro: pick elim: step.cases split: if_splits)













section \<open>Colour affinity\<close>

text \<open>
  Claim C4, evaluated on the code. \<open>colorCounts\<close> always has five entries, so the two
  symbols taken from it are never an empty list and the fallback to the prior affinity never
  applies: a seat that has drafted only colourless cards gets the affinity W, U. In the first
  pick of the draft on the relic and the forest every seat drafts the colourless relic; the
  human seat's empty affinity and the opponents' affinity W all become W, U.
\<close>

theorem colorless_pick_sets_affinity:
  "colors (updatePlayerColors (aiSeat ''RG'' [])) = ''WU''
   \<and> colors (updatePlayerColors (aiSeat ''R'' [relic])) = ''WU''
   \<and> handlePick relic freshDraft = Inr afterFirstPick
   \<and> map colors (players freshDraft) = [[], ''W'', ''W'', ''W'', ''W'', ''W'', ''W'', ''W'']
   \<and> map (\<lambda>p. concat (map cardColors (draftedCards p))) (players afterFirstPick)
       = [[], [], [], [], [], [], [], []]
   \<and> map colors (players afterFirstPick)
       = [''WU'', ''WU'', ''WU'', ''WU'', ''WU'', ''WU'', ''WU'', ''WU'']"
proof -
  have a: "colors (updatePlayerColors (aiSeat ''RG'' [])) = ''WU''"
          "colors (updatePlayerColors (aiSeat ''R'' [relic])) = ''WU''"
    by (simp_all add: updatePlayerColors_def colorCounts_def cardColors_def jsSort_def aiSeat_def
          relic_def mkCard_def)
  have b: "map colors (players freshDraft) = [[], ''W'', ''W'', ''W'', ''W'', ''W'', ''W'', ''W'']"
    by (simp add: freshDraft_def seats_def)
  have c: "map (\<lambda>p. concat (map cardColors (draftedCards p))) (players afterFirstPick)
             = [[], [], [], [], [], [], [], []]"
    by (simp add: afterFirstPick_def seats_def cardColors_def relic_def mkCard_def)
  have d: "map colors (players afterFirstPick)
             = [''WU'', ''WU'', ''WU'', ''WU'', ''WU'', ''WU'', ''WU'', ''WU'']"
    by (simp add: afterFirstPick_def seats_def)
  show ?thesis using a b c d pick_relic by simp
qed

section \<open>Scoring\<close>

lemma fallback_creature: "fallbackScore (mkCard i n ''common'' 2 cs ''Creature'') = 13"
  by (simp add: fallbackScore_def rarityScore_def cmcScore_def typeScore_def mkCard_def
        parseIntOr0_def parseInt_def)

text \<open>
  Claim C5, evaluated on the code. \<open>statsColor.split('')\<close> is an array, and an array is
  truthy even when empty, so \<open>|| cardColors\<close> never applies: a card without a statistics entry
  is scored as colourless whatever its own colours. For a seat with affinity W, U the white
  card and the black card, neither with statistics, both get the colourless bonus 3 and the
  same score.
\<close>

theorem own_colors_ignored:
  "card_colors whiteCard = Some ''W''
   \<and> cardColorInfo None whiteCard = []
   \<and> colorScore (cardColorInfo None whiteCard) ''WU'' = 3
   \<and> colorScore (cardColors whiteCard) ''WU'' = 8
   \<and> calculateCardScore Map.empty Map.empty whiteCard (aiSeat ''WU'' []) = 16
   \<and> calculateCardScore Map.empty Map.empty blackCard (aiSeat ''WU'' []) = 16"
  by (simp add: calculateCardScore_def cardColorInfo_def truthyArray_def statsScore_def
        statField_def colorScore_def getColorPairBonus_def aiSeat_def whiteCard_def
        blackCard_def fallback_creature cardColors_def)
     (simp add: mkCard_def)





section \<open>Deck builder\<close>

lemma colors_lands: "concat (map cardColors (map (basicLand c) xs)) = replicate (length xs) c"
  by (induction xs) (simp_all add: cardColors_def basicLand_def)

lemma mathRound_values: "mathRound 17 = 17" "mathRound 0 = 0" "mathRound (17 / 2) = 9"
  by (simp_all add: mathRound_def floor_eq_iff)

lemma lands_white: "suggestedLands [whiteCard] = map (basicLand CHR ''W'') [0..<17]"
  by (simp add: suggestedLands_def cardColors_def whiteCard_def mkCard_def mathRound_values Let_def)

lemma colors_lands_comp:
  "concat (map (cardColors \<circ> basicLand c) xs) = replicate (length xs) c"
  by (induction xs) (simp_all add: cardColors_def basicLand_def)

lemma lands_white_again:
  "suggestedLands ([whiteCard] @ map (basicLand CHR ''W'') [0..<17])
     = map (basicLand CHR ''W'') [0..<17]"
proof -
  let ?deck = "[whiteCard] @ map (basicLand CHR ''W'') [0..<17]"
  let ?syms = "CHR ''W'' # replicate 17 CHR ''W''"
  have sym: "concat (map cardColors ?deck) = ?syms"
    by (simp add: colors_lands_comp cardColors_def whiteCard_def mkCard_def)
  have cnt: "length (filter (\<lambda>x. x = col) ?syms) = (if col = CHR ''W'' then 18 else 0)" for col
    by simp
  have nf: "\<not> (\<exists>x \<in> set ?syms. x \<notin> set ''WUBRG'')"
    by simp
  show ?thesis
    unfolding suggestedLands_def sym Let_def
    by (simp only: cnt nf) (simp add: mathRound_values)
qed

text \<open>
  Claim C8, evaluated on the code. \<open>suggestLands\<close> names its lands \<open>basic-W-0\<close>,
  \<open>basic-W-1\<close>, ... on every call and appends them without looking at the deck: on a deck of
  one white card the second call appends the seventeen Plains of the first call once more.
\<close>

theorem suggestLands_twice_duplicates:
  "builtDeck (suggestLands (suggestLands (initialApp\<lparr>builtDeck := [whiteCard]\<rparr>)))
     = [whiteCard] @ map (basicLand CHR ''W'') [0..<17] @ map (basicLand CHR ''W'') [0..<17]
   \<and> \<not> distinct (map card_id
          (builtDeck (suggestLands (suggestLands (initialApp\<lparr>builtDeck := [whiteCard]\<rparr>)))))"
proof -
  let ?lands = "map (basicLand CHR ''W'') [0..<17]"
  have d: "builtDeck (suggestLands (suggestLands (initialApp\<lparr>builtDeck := [whiteCard]\<rparr>)))
             = [whiteCard] @ ?lands @ ?lands"
    using lands_white lands_white_again by (simp add: suggestLands_def)
  have "basicLand CHR ''W'' 0 \<in> set ?lands" by simp
  then have "\<not> distinct (?lands @ ?lands)"
    by (simp only: distinct_append) blast
  then have "\<not> distinct ([whiteCard] @ ?lands @ ?lands)"
    by simp
  then have "\<not> distinct (map card_id ([whiteCard] @ ?lands @ ?lands))"
    using distinct_map by blast
  then show ?thesis using d by simp
qed

lemma lands_white_blue:
  "suggestedLands [whiteCard, whiteCard2, blueCard, blueCard2]
     = map (basicLand CHR ''W'') [0..<9] @ map (basicLand CHR ''U'') [0..<9]"
  by (simp add: suggestedLands_def cardColors_def whiteCard_def whiteCard2_def blueCard_def
        blueCard2_def mkCard_def mathRound_values Let_def)

lemma filter_name_lands:
  "filter (\<lambda>c. card_name c = n) (map (basicLand col) xs)
     = (if landName col = n then map (basicLand col) xs else [])"
  by (induction xs) (simp_all add: basicLand_def)

text \<open>
  Claim C9, evaluated on the code. Each colour's share of the 17 lands is rounded on its own:
  a deck of two white and two blue cards gets 9 Plains and 9 Islands, 18 lands.
\<close>

theorem suggestLands_rounds_per_color:
  "length (suggestedLands [whiteCard, whiteCard2, blueCard, blueCard2]) = 18
   \<and> length (filter (\<lambda>c. card_name c = ''Plains'')
               (suggestedLands [whiteCard, whiteCard2, blueCard, blueCard2])) = 9
   \<and> length (filter (\<lambda>c. card_name c = ''Island'')
               (suggestedLands [whiteCard, whiteCard2, blueCard, blueCard2])) = 9"
  by (simp add: lands_white_blue filter_name_lands landName_def)

section \<open>Reachable states are well formed\<close>

lemma packs_updatePlayerColors: "packs (updatePlayerColors p) = packs p"
  by (simp add: updatePlayerColors_def Let_def)

lemma length_packs_humanPick: "length (packs (humanPick rnd c p)) = length (packs p)"
  by (simp add: humanPick_def Let_def packs_updatePlayerColors)

lemma length_packs_aiPick: "length (packs (aiPick st pst rnd p)) = length (packs p)"
  by (simp add: aiPick_def Let_def packs_updatePlayerColors split: option.splits)

lemma threePacks_passPacks: "threePacks ps \<Longrightarrow> threePacks (passPacks ps rnd)"
  by (auto simp: threePacks_def passPacks_def Let_def in_set_enumerate_eq)

lemma threePacks_updatedPlayers:
  assumes "threePacks (players s)" "players s \<noteq> []"
  shows "threePacks (updatedPlayers c s)"
proof -
  obtain p ps where ps: "players s = p # ps" using assms(2) by (cases "players s") auto
  have "threePacks (humanPick (currentRound s) c p
          # map (aiPick (cardStats s) (colorPairStats s) (currentRound s)) ps)"
    using assms(1) ps by (auto simp: threePacks_def length_packs_humanPick length_packs_aiPick)
  then show ?thesis unfolding updatedPlayers_def ps by (simp add: threePacks_passPacks)
qed

lemma set_pushHistory: "set (pushHistory h x) \<subseteq> insert x (set h)"
  using set_drop_subset[of "length (h @ [x]) - 5" "h @ [x]"] by (auto simp: pushHistory_def)

lemma those_Some: "those xs = Some ys \<Longrightarrow> \<forall>y \<in> set ys. Some y \<in> set xs"
  by (induction xs arbitrary: ys) (auto split: option.splits)

lemma length_packs_dealPacks: "dealPacks orc cards ip = Some p \<Longrightarrow> length (packs p) = 3"
  unfolding dealPacks_def
  by (cases "generatePack (packDraws orc (fst ip) 0) cards";
      cases "generatePack (packDraws orc (fst ip) 1) cards";
      cases "generatePack (packDraws orc (fst ip) 2) cards") auto

lemma threePacks_initializeDraft:
  assumes "initializeDraft orc cards = Some ps"
  shows "threePacks ps"
proof -
  have "\<forall>p \<in> set ps. \<exists>ip. dealPacks orc cards ip = Some p"
    using those_Some[OF assms[unfolded initializeDraft_def Let_def]] by (metis imageE list.set_map)
  then show ?thesis
    unfolding threePacks_def using length_packs_dealPacks by blast
qed

lemma threePacks_mapHuman:
  "threePacks ps \<Longrightarrow> (\<And>p. packs (f p) = packs p) \<Longrightarrow> threePacks (mapHuman f ps)"
  by (auto simp: threePacks_def mapHuman_def in_set_enumerate_eq)

lemma step_wellFormed:
  assumes "step s cmd s'" "wellFormed s"
  shows "wellFormed s'"
  using assms
proof (induction rule: step.induct)
  case (pick s c s')
  have ne: "players s \<noteq> []" using pick(3) by (auto simp: handlePick_def split: if_splits)
  have tp: "threePacks (updatedPlayers c s)"
    using pick(4) ne by (simp add: wellFormed_def threePacks_updatedPlayers)
  have hist: "\<forall>h \<in> set (pushHistory (draftHistory s) (players s, currentPackIndex s)).
                threePacks (fst h)"
    using pick(4) set_pushHistory[of "draftHistory s" "(players s, currentPackIndex s)"]
    by (auto simp: wellFormed_def)
  show ?case
    using pick(4) tp hist handlePick_players[OF pick(3)] handlePick_round[OF pick(3)]
      handlePick_history[OF pick(3)]
    by (auto simp: wellFormed_def)
next
  case (undo s)
  have "last (draftHistory s) \<in> set (draftHistory s)" using undo(2) by simp
  moreover have "set (butlast (draftHistory s)) \<subseteq> set (draftHistory s)"
    by (auto dest: in_set_butlastD)
  ultimately show ?case
    using undo by (auto simp: wellFormed_def undoPickClick_def Let_def last_conv_nth butlast_conv_take)
next
  case (suggestPick s)
  then show ?case by (auto simp: wellFormed_def suggestPickClick_def Let_def split: option.splits)
next
  case (sortDrafted s criteria)
  then show ?case by (auto simp: wellFormed_def sortDraftDeck_def intro: threePacks_mapHuman)
next
  case (toSideboard s c)
  then show ?case by (auto simp: wellFormed_def moveToSideboard_def intro: threePacks_mapHuman)
next
  case (fromSideboard s c)
  then show ?case by (auto simp: wellFormed_def moveFromSideboard_def intro: threePacks_mapHuman)
next
  case (changeSet s)
  then show ?case by (simp add: wellFormed_def selectSet_def threePacks_def)
next
  case (fetched orc allCards s s')
  then show ?case
    by (auto simp: wellFormed_def cardsFetched_def threePacks_initializeDraft
             split: if_splits option.splits)
qed (simp_all add: wellFormed_def addToDeck_def removeFromDeck_def suggestLands_def sortDeck_def)

lemma reachable_wellFormed: "reachable s \<Longrightarrow> wellFormed s"
proof (induction rule: reachable.induct)
  case reach_init
  show ?case by (simp add: wellFormed_def initialApp_def threePacks_def)
next
  case (reach_step s cmd s')
  then show ?case using step_wellFormed by blast
qed

text \<open>
  In a reachable state a pick the page offers never throws: the \<open>pick\<close> rule of \<open>step\<close>
  loses no behaviour by asking for a result of \<open>handlePick\<close>.
\<close>

lemma reachable_pick_returns:
  assumes "reachable s" "packShown s"
  shows "\<exists>s'. handlePick c s = Inr s'"
proof -
  have wf: "wellFormed s" using assms(1) by (rule reachable_wellFormed)
  have ne: "players s \<noteq> []" using assms(2) by (auto simp: packShown_def humanPack_def)
  have "\<not> (\<exists>p \<in> set (players s). length (packs p) < currentRound s)"
    using wf by (auto simp: wellFormed_def threePacks_def)
  then show ?thesis using wf ne by (auto simp: handlePick_def wellFormed_def Let_def)
qed

section \<open>No pack of a reachable state has two basic lands\<close>

lemma generatePack_one_land:
  assumes "generatePack ds cards = Some pack"
  shows "length (filter isBasicLand pack) = 1"
proof -
  obtain d where d: "length (filter isBasicLand (assemblePack d cards)) = 1"
    and p: "pack = jsSort rarityCompare (assemblePack d cards)"
    using generatePack_accepted[OF assms] by blast
  show ?thesis
    using d length_filter_mset[OF mset_jsSort, of isBasicLand rarityCompare "assemblePack d cards"]
    by (simp add: p)
qed

lemma lands_after_removal:
  "length (filter isBasicLand (filter Q pk)) \<le> length (filter isBasicLand pk)"
  by (induction pk) auto

lemma lands_update:
  assumes "\<forall>pk \<in> set pks. length (filter isBasicLand pk) \<le> 1"
    and "k < length pks \<longrightarrow> length (filter isBasicLand v) \<le> 1"
  shows "\<forall>pk \<in> set (pks[k := v]). length (filter isBasicLand pk) \<le> 1"
proof (cases "k < length pks")
  case True
  then show ?thesis using assms set_update_subset_insert[of pks k v] by auto
next
  case False
  then have "pks[k := v] = pks" by (simp add: list_update_beyond)
  then show ?thesis using assms(1) by simp
qed

lemma lands_removal_nth:
  assumes "\<forall>pk \<in> set pks. length (filter isBasicLand pk) \<le> 1"
  shows "k < length pks \<longrightarrow> length (filter isBasicLand (filter Q (pks ! k))) \<le> 1"
proof
  assume "k < length pks"
  then have "pks ! k \<in> set pks" by simp
  then have "length (filter isBasicLand (pks ! k)) \<le> 1" using assms by blast
  then show "length (filter isBasicLand (filter Q (pks ! k))) \<le> 1"
    using lands_after_removal[of Q "pks ! k"] by linarith
qed

lemma lands_humanPick:
  assumes "\<forall>pk \<in> set (packs p). length (filter isBasicLand pk) \<le> 1"
  shows "\<forall>pk \<in> set (packs (humanPick rnd c p)). length (filter isBasicLand pk) \<le> 1"
proof -
  have e: "packs (humanPick rnd c p) =
             (packs p)[rnd - 1 := filter (\<lambda>x. card_id x \<noteq> card_id c) (packs p ! (rnd - 1))]"
    by (simp add: humanPick_def Let_def packs_updatePlayerColors)
  show ?thesis
    unfolding e by (rule lands_update[OF assms lands_removal_nth[OF assms]])
qed

lemma lands_aiPick:
  assumes "\<forall>pk \<in> set (packs p). length (filter isBasicLand pk) \<le> 1"
  shows "\<forall>pk \<in> set (packs (aiPick st pst rnd p)). length (filter isBasicLand pk) \<le> 1"
proof (cases "aiPickCard st pst (packs p ! (rnd - 1)) p")
  case None
  then have "aiPick st pst rnd p = p" by (simp add: aiPick_def Let_def)
  then show ?thesis using assms by simp
next
  case (Some a)
  show ?thesis
  proof (cases "length (packs p ! (rnd - 1)) > 0")
    case True
    then have e: "packs (aiPick st pst rnd p) =
               (packs p)[rnd - 1 := filter (\<lambda>x. card_id x \<noteq> card_id a) (packs p ! (rnd - 1))]"
      using Some by (simp add: aiPick_def Let_def packs_updatePlayerColors)
    show ?thesis
      unfolding e by (rule lands_update[OF assms lands_removal_nth[OF assms]])
  next
    case False
    then have "aiPick st pst rnd p = p" by (simp add: aiPick_def Let_def)
    then show ?thesis using assms by simp
  qed
qed

lemma length_passPacks: "length (passPacks ps rnd) = length ps"
  by (simp add: passPacks_def Let_def)

text \<open>
  On seats whose packs have at most one basic land each, the repair of \<open>passPacks\<close> finds
  nothing to remove: every seat holds the very pack of the seat it receives from.
\<close>

lemma passPacks_unrepaired:
  assumes "oneLand ps" and "1 \<le> rnd" and "\<forall>p \<in> set ps. rnd \<le> length (packs p)"
    and "i < length ps"
  shows "passPacks ps rnd ! i =
           (ps ! i)\<lparr>packs := (packs (ps ! i))[rnd - 1 :=
              packs (ps ! nextIndex rnd (length ps) i) ! (rnd - 1)]\<rparr>"
proof -
  have "0 < length ps" using assms(4) by (cases ps) simp_all
  then have n: "nextIndex rnd (length ps) i < length ps" by (simp add: nextIndex_def)
  then have m: "ps ! nextIndex rnd (length ps) i \<in> set ps" by simp
  then have "rnd \<le> length (packs (ps ! nextIndex rnd (length ps) i))"
    using assms(3) by blast
  then have "rnd - 1 < length (packs (ps ! nextIndex rnd (length ps) i))"
    using assms(2) by linarith
  then have "packs (ps ! nextIndex rnd (length ps) i) ! (rnd - 1)
               \<in> set (packs (ps ! nextIndex rnd (length ps) i))"
    by simp
  then have "length (filter isBasicLand (packs (ps ! nextIndex rnd (length ps) i) ! (rnd - 1))) \<le> 1"
    using assms(1) m by (auto simp: oneLand_def)
  then show ?thesis using passPacks_nth[OF assms(4), of rnd] by (simp add: correctLands_id)
qed

lemma oneLand_passPacks:
  assumes "oneLand ps" and "1 \<le> rnd" and "\<forall>p \<in> set ps. rnd \<le> length (packs p)"
  shows "oneLand (passPacks ps rnd)"
  unfolding oneLand_def
proof (intro ballI)
  fix p pk
  assume p: "p \<in> set (passPacks ps rnd)" and pk: "pk \<in> set (packs p)"
  obtain i where i: "i < length ps" and pi: "p = passPacks ps rnd ! i"
    using p by (auto simp: in_set_conv_nth length_passPacks)
  let ?n = "nextIndex rnd (length ps) i"
  have "0 < length ps" using i by (cases ps) simp_all
  then have n: "?n < length ps" by (simp add: nextIndex_def)
  then have m: "ps ! ?n \<in> set ps" by simp
  then have "rnd \<le> length (packs (ps ! ?n))" using assms(3) by blast
  then have "rnd - 1 < length (packs (ps ! ?n))" using assms(2) by linarith
  then have "packs (ps ! ?n) ! (rnd - 1) \<in> set (packs (ps ! ?n))" by simp
  then have v: "length (filter isBasicLand (packs (ps ! ?n) ! (rnd - 1))) \<le> 1"
    using assms(1) m by (auto simp: oneLand_def)
  have own: "\<forall>pk \<in> set (packs (ps ! i)). length (filter isBasicLand pk) \<le> 1"
    using assms(1) i by (auto simp: oneLand_def)
  have "packs p = (packs (ps ! i))[rnd - 1 := packs (ps ! ?n) ! (rnd - 1)]"
    using passPacks_unrepaired[OF assms i] pi by simp
  then show "length (filter isBasicLand pk) \<le> 1"
    using lands_update[OF own, of "rnd - 1" "packs (ps ! ?n) ! (rnd - 1)"] v pk by simp
qed

lemma oneLand_picks:
  assumes "oneLand (p # ps)"
  shows "oneLand (humanPick rnd c p # map (aiPick st pst rnd) ps)"
  unfolding oneLand_def
proof (intro ballI)
  fix q pk
  assume q: "q \<in> set (humanPick rnd c p # map (aiPick st pst rnd) ps)"
    and pk: "pk \<in> set (packs q)"
  from q consider "q = humanPick rnd c p" | r where "r \<in> set ps" "q = aiPick st pst rnd r"
    by auto
  then show "length (filter isBasicLand pk) \<le> 1"
  proof cases
    case 1
    have "\<forall>pk \<in> set (packs p). length (filter isBasicLand pk) \<le> 1"
      using assms by (simp add: oneLand_def)
    from lands_humanPick[OF this] show ?thesis using 1 pk by blast
  next
    case 2
    have "\<forall>pk \<in> set (packs r). length (filter isBasicLand pk) \<le> 1"
      using assms 2(1) by (simp add: oneLand_def)
    from lands_aiPick[OF this] show ?thesis using 2(2) pk by blast
  qed
qed

lemma oneLand_updatedPlayers:
  assumes "oneLand (players s)" and "handlePick c s = Inr s'"
  shows "oneLand (updatedPlayers c s)"
proof -
  have ok: "players s \<noteq> []" "1 \<le> currentRound s"
    "\<forall>p \<in> set (players s). currentRound s \<le> length (packs p)"
    using assms(2) by (auto simp: handlePick_def split: if_splits)
  obtain p ps where ps: "players s = p # ps" using ok(1) by (cases "players s") auto
  let ?picked = "humanPick (currentRound s) c p
                 # map (aiPick (cardStats s) (colorPairStats s) (currentRound s)) ps"
  have a: "oneLand ?picked" using assms(1) ps oneLand_picks by simp
  have b: "\<forall>q \<in> set ?picked. currentRound s \<le> length (packs q)"
    using ok(3) ps by (auto simp: length_packs_humanPick length_packs_aiPick)
  show ?thesis
    unfolding updatedPlayers_def ps using oneLand_passPacks[OF a ok(2) b] by simp
qed

lemma oneLand_dealPacks:
  assumes "dealPacks orc cards ip = Some p"
  shows "\<forall>pk \<in> set (packs p). length (filter isBasicLand pk) \<le> 1"
proof -
  obtain a b c where g: "generatePack (packDraws orc (fst ip) 0) cards = Some a"
      "generatePack (packDraws orc (fst ip) 1) cards = Some b"
      "generatePack (packDraws orc (fst ip) 2) cards = Some c"
    and p: "p = (snd ip)\<lparr>packs := [a, b, c]\<rparr>"
    using assms unfolding dealPacks_def
    by (cases "generatePack (packDraws orc (fst ip) 0) cards";
        cases "generatePack (packDraws orc (fst ip) 1) cards";
        cases "generatePack (packDraws orc (fst ip) 2) cards") auto
  show ?thesis
    using generatePack_one_land[OF g(1)] generatePack_one_land[OF g(2)]
      generatePack_one_land[OF g(3)]
    by (simp add: p)
qed

lemma oneLand_initializeDraft:
  assumes "initializeDraft orc cards = Some ps"
  shows "oneLand ps"
proof -
  have "\<forall>p \<in> set ps. \<exists>ip. dealPacks orc cards ip = Some p"
    using those_Some[OF assms[unfolded initializeDraft_def Let_def]] by (metis imageE list.set_map)
  then show ?thesis
    unfolding oneLand_def using oneLand_dealPacks by blast
qed

lemma oneLand_mapHuman:
  assumes "oneLand ps" and "\<And>p. packs (f p) = packs p"
  shows "oneLand (mapHuman f ps)"
proof -
  have h: "\<forall>q \<in> set (mapHuman f ps). \<exists>p \<in> set ps. packs q = packs p"
  proof
    fix q
    assume "q \<in> set (mapHuman f ps)"
    then obtain i where i: "i < length ps" and q: "q = (if i = 0 then f (ps ! i) else ps ! i)"
      by (auto simp: mapHuman_def in_set_enumerate_eq)
    have "packs q = packs (ps ! i)" using q assms(2) by simp
    then show "\<exists>p \<in> set ps. packs q = packs p" using i nth_mem by blast
  qed
  show ?thesis
    unfolding oneLand_def
  proof (intro ballI)
    fix q pk
    assume q: "q \<in> set (mapHuman f ps)" and pk: "pk \<in> set (packs q)"
    obtain p where "p \<in> set ps" "packs q = packs p" using h q by blast
    then show "length (filter isBasicLand pk) \<le> 1"
      using assms(1) pk unfolding oneLand_def by simp
  qed
qed

lemma step_oneLand:
  assumes "step s cmd s'" "oneLandState s"
  shows "oneLandState s'"
  using assms
proof (induction rule: step.induct)
  case (pick s c s')
  have ol: "oneLand (updatedPlayers c s)"
    using pick(4) oneLand_updatedPlayers[OF _ pick(3)] by (simp add: oneLandState_def)
  have hist: "\<forall>h \<in> set (pushHistory (draftHistory s) (players s, currentPackIndex s)).
                oneLand (fst h)"
    using pick(4) set_pushHistory[of "draftHistory s" "(players s, currentPackIndex s)"]
    by (auto simp: oneLandState_def)
  show ?case
    using ol hist handlePick_players[OF pick(3)] handlePick_history[OF pick(3)]
    by (auto simp: oneLandState_def)
next
  case (undo s)
  have "last (draftHistory s) \<in> set (draftHistory s)" using undo(2) by simp
  moreover have "set (butlast (draftHistory s)) \<subseteq> set (draftHistory s)"
    by (auto dest: in_set_butlastD)
  ultimately show ?case
    using undo by (auto simp: oneLandState_def undoPickClick_def Let_def last_conv_nth butlast_conv_take)
next
  case (suggestPick s)
  then show ?case by (auto simp: oneLandState_def suggestPickClick_def Let_def split: option.splits)
next
  case (sortDrafted s criteria)
  then show ?case by (auto simp: oneLandState_def sortDraftDeck_def intro: oneLand_mapHuman)
next
  case (toSideboard s c)
  then show ?case by (auto simp: oneLandState_def moveToSideboard_def intro: oneLand_mapHuman)
next
  case (fromSideboard s c)
  then show ?case by (auto simp: oneLandState_def moveFromSideboard_def intro: oneLand_mapHuman)
next
  case (changeSet s)
  then show ?case by (simp add: oneLandState_def selectSet_def oneLand_def)
next
  case (fetched orc allCards s s')
  then show ?case
    by (auto simp: oneLandState_def cardsFetched_def oneLand_initializeDraft
             split: if_splits option.splits)
qed (simp_all add: oneLandState_def addToDeck_def removeFromDeck_def suggestLands_def sortDeck_def)

lemma reachable_packs_one_land: "reachable s \<Longrightarrow> oneLandState s"
proof (induction rule: reachable.induct)
  case reach_init
  show ?case by (simp add: oneLandState_def initialApp_def oneLand_def)
next
  case (reach_step s cmd s')
  then show ?case using step_oneLand by blast
qed

text \<open>
  The pass of a pick in a reachable state repairs nothing: after the pick every seat holds, for
  the round of the pick, the pack its neighbour held after the picks of all seats.
\<close>

lemma reachable_pass_unrepaired:
  assumes "reachable s" and "handlePick c s = Inr s'" and "i < length (players s)"
  shows "packs (players s' ! i) ! (currentRound s - 1) =
           packs ((humanPick (currentRound s) c (hd (players s))
                   # map (aiPick (cardStats s) (colorPairStats s) (currentRound s))
                         (tl (players s)))
                  ! nextIndex (currentRound s) (length (players s)) i) ! (currentRound s - 1)"
proof -
  have ok: "players s \<noteq> []" "1 \<le> currentRound s"
    "\<forall>p \<in> set (players s). currentRound s \<le> length (packs p)"
    using assms(2) by (auto simp: handlePick_def split: if_splits)
  obtain p ps where ps: "players s = p # ps" using ok(1) by (cases "players s") auto
  let ?picked = "humanPick (currentRound s) c p
                 # map (aiPick (cardStats s) (colorPairStats s) (currentRound s)) ps"
  have "oneLand (players s)" using reachable_packs_one_land[OF assms(1)] by (simp add: oneLandState_def)
  then have a: "oneLand ?picked" using ps oneLand_picks by simp
  have b: "\<forall>q \<in> set ?picked. currentRound s \<le> length (packs q)"
    using ok(3) ps by (auto simp: length_packs_humanPick length_packs_aiPick)
  have l: "length ?picked = length (players s)" by (simp add: ps)
  have i: "i < length ?picked" using assms(3) l by simp
  have r: "currentRound s - 1 < length (packs (?picked ! i))"
  proof -
    have "?picked ! i \<in> set ?picked" using i by (rule nth_mem)
    then have "currentRound s \<le> length (packs (?picked ! i))" using b by blast
    then show ?thesis using ok(2) by linarith
  qed
  have "players s' ! i = passPacks ?picked (currentRound s) ! i"
    using handlePick_players[OF assms(2)] by (simp add: updatedPlayers_def ps)
  then show ?thesis
    using passPacks_unrepaired[OF a ok(2) b i] r l by (simp add: ps)
qed

end
